theory Spec2Isabelle
  imports Complex_Main
begin

section \<open>Conventions of the embedding\<close>

text \<open>
  The routine \<^verbatim>\<open>Ekf::fuseVelPosHeight\<close> of \<^verbatim>\<open>src/EKF/vel_pos_fusion.cpp\<close> is
  embedded as a state transformer on a record of the member variables it touches.

  \<^item> A C \<^verbatim>\<open>float\<close> is modelled as a \<open>real\<close>: rounding, infinities and NaN are outside
    the model. Everything proved below concerns the control flow and the exact
    arithmetic of the routine.
  \<^item> A fixed-size array \<^verbatim>\<open>float a[n]\<close> is a function from the index to the entry, a matrix
    a function of row and column. Every index the routine uses is below the bound of its
    array (the loop bounds are the literal 6 and the constant 24).
  \<^item> A counted loop \<^verbatim>\<open>for (i = lo; i < hi; i++) body\<close> is \<open>for_loop lo hi body\<close>.
  \<^item> The collaborators \<^verbatim>\<open>fixCovarianceErrors()\<close> and \<^verbatim>\<open>fuse(K, innov)\<close> are declared in
    a header that is not part of the sources. They are parameters of the model: the first
    yields the sanitised covariance from the filter state, the second the corrected state
    vector.
  \<^item> The uORB debug record published inside the height branch (lines 159--179) writes no
    member variable of the filter and is left out.
\<close>

type_synonym vec = "nat \<Rightarrow> real"
type_synonym mat = "nat \<Rightarrow> nat \<Rightarrow> real"

function for_loop :: "nat \<Rightarrow> nat \<Rightarrow> (nat \<Rightarrow> 'a \<Rightarrow> 'a) \<Rightarrow> 'a \<Rightarrow> 'a" where
  "for_loop i n body s = (if i < n then for_loop (Suc i) n body (body i s) else s)"
  by pat_completeness auto
termination
  by (relation "measure (\<lambda>(i, n, body, s). n - i)") auto

declare for_loop.simps [simp del]

section \<open>Data model\<close>

record parameters =
  gps_vel_noise :: real
  vel_innov_gate :: real
  baro_noise :: real
  baro_innov_gate :: real
  gps_pos_noise :: real
  pos_noaid_noise :: real
  range_noise :: real
  range_noise_scaler :: real
  rng_gnd_clearance :: real
  range_cos_max_tilt :: real
  range_innov_gate :: real
  ev_innov_gate :: real
  gnd_effect_deadzone :: real

text \<open>The bits of \<^verbatim>\<open>_control_status.flags\<close> the routine reads.\<close>

record filter_control_status =
  tilt_align :: bool
  baro_hgt :: bool
  gps_hgt :: bool
  rng_hgt :: bool
  ev_hgt :: bool
  gnd_effect :: bool

text \<open>The bits of \<^verbatim>\<open>_fault_status.flags\<close> and \<^verbatim>\<open>_innov_check_fail_status.flags\<close> it writes.\<close>

record fault_status =
  bad_vel_N :: bool
  bad_vel_E :: bool
  bad_vel_D :: bool
  bad_pos_N :: bool
  bad_pos_E :: bool
  bad_pos_D :: bool

record innovation_fault_status =
  reject_vel_NED :: bool
  reject_pos_NE :: bool
  reject_pos_D :: bool

text \<open>The delayed sensor samples: \<^verbatim>\<open>_gps_sample_delayed.{hgt,sacc,vacc}\<close>,
  \<^verbatim>\<open>_baro_sample_delayed.hgt\<close>, \<^verbatim>\<open>_range_sample_delayed.rng\<close>,
  \<^verbatim>\<open>_ev_sample_delayed.{posNED(2),posErr}\<close>.\<close>

record samples =
  gps_sample_hgt :: real
  gps_sample_sacc :: real
  gps_sample_vacc :: real
  baro_sample_hgt :: real
  range_sample_rng :: real
  ev_sample_posNED2 :: real
  ev_sample_posErr :: real

text \<open>The member variables of the filter. \<open>state\<close> is the 24-entry state vector, of which
  \<^verbatim>\<open>_state.pos(2)\<close> is entry 9; \<open>P\<close> is the 24 x 24 covariance. Time stamps are
  microsecond counters.\<close>

record ekf =
  state :: vec
  P :: mat
  vel_pos_innov :: vec
  aux_vel_innov :: vec
  vel_pos_innov_var :: vec
  vel_pos_test_ratio :: vec
  velObsVarNE :: vec
  hvelInnovGate :: real
  posObsNoiseNE :: real
  posInnovGateNE :: real
  fuse_hor_vel :: bool
  fuse_hor_vel_aux :: bool
  fuse_vert_vel :: bool
  fuse_pos :: bool
  fuse_height :: bool
  fuse_hpos_as_odom :: bool
  params :: parameters
  control_status :: filter_control_status
  fault_status :: fault_status
  innov_check_fail_status :: innovation_fault_status
  sample :: samples
  baro_hgt_offset :: real
  gps_alt_ref :: real
  hgt_sensor_offset :: real
  R_rng_to_earth_2_2 :: real
  time_last_imu :: nat
  time_last_vel_fuse :: nat
  time_last_pos_fuse :: nat
  time_last_delpos_fuse :: nat
  time_last_hgt_fuse :: nat

text \<open>The local arrays of the routine (lines 52--58), indexed by the observation
  [VN, VE, VD, PN, PE, PD].\<close>

record observations =
  fuse_map :: "nat \<Rightarrow> bool"
  innov_check_pass_map :: "nat \<Rightarrow> bool"
  R :: vec
  gate_size :: vec
  innovation :: vec

section \<open>Helpers declared outside the sources\<close>

text \<open>Modelled from the spec: the number of states \<^verbatim>\<open>_k_num_states\<close>, declared in the
  missing header; the spec fixes N = 24.\<close>

definition k_num_states :: nat where
  "k_num_states = 24"

text \<open>Modelled from the spec: \<^verbatim>\<open>sq\<close> of the missing math library, the square.\<close>

definition sq :: "real \<Rightarrow> real" where
  "sq x = x * x"

text \<open>Modelled from the spec: \<^verbatim>\<open>math::constrain\<close> of the missing math library, the
  spec's clamp of a value to a lower and an upper limit, the lower limit tested first.\<close>

definition constrain :: "real \<Rightarrow> real \<Rightarrow> real \<Rightarrow> real" where
  "constrain val min_val max_val =
     (if val < min_val then min_val else if val > max_val then max_val else val)"

text \<open>Modelled from the spec: \<^verbatim>\<open>zeroRows\<close> and \<^verbatim>\<open>zeroCols\<close> of the missing covariance
  helpers: set rows (columns) \<open>first \<dots> last\<close> inclusive to zero.\<close>

definition zeroRows :: "mat \<Rightarrow> nat \<Rightarrow> nat \<Rightarrow> mat" where
  "zeroRows cov_mat first_row last_row =
     (\<lambda>row col. if first_row \<le> row \<and> row \<le> last_row then 0 else cov_mat row col)"

definition zeroCols :: "mat \<Rightarrow> nat \<Rightarrow> nat \<Rightarrow> mat" where
  "zeroCols cov_mat first_col last_col =
     (\<lambda>row col. if first_col \<le> col \<and> col \<le> last_col then 0 else cov_mat row col)"

text \<open>Modelled from the spec: the state correction \<open>x \<leftarrow> x + K \<sqdot> innov\<close> of the missing
  \<^verbatim>\<open>fuse\<close>, and the symmetrising, diagonal-clamping part of the missing
  \<^verbatim>\<open>fixCovarianceErrors\<close>. They instantiate the two parameters of the model where a
  concrete run is evaluated; the theorems hold for every instance.\<close>

definition fuse_spec :: "vec \<Rightarrow> real \<Rightarrow> ekf \<Rightarrow> vec" where
  "fuse_spec K innov s = (\<lambda>i. state s i + K i * innov)"

definition fixCovarianceErrors_spec :: "ekf \<Rightarrow> mat" where
  "fixCovarianceErrors_spec s =
     (\<lambda>row col. if row = col then max (P s row row) 0 else (P s row col + P s col row) / 2)"

section \<open>The observation assembler (lines 52--183)\<close>

text \<open>Lines 52--58: the locals, zero-initialised, and the copy of \<^verbatim>\<open>_vel_pos_innov\<close>.\<close>

definition init_obs :: "ekf \<Rightarrow> observations" where
  "init_obs s =
     \<lparr>fuse_map = (\<lambda>_. False), innov_check_pass_map = (\<lambda>_. False),
      R = (\<lambda>_. 0), gate_size = (\<lambda>_. 0), innovation = vel_pos_innov s\<rparr>"

text \<open>Lines 61--76: the NE velocity observations.\<close>

definition hor_vel_obs :: "ekf \<Rightarrow> observations \<Rightarrow> observations" where
  "hor_vel_obs s l =
     (if fuse_hor_vel s \<or> fuse_hor_vel_aux s then
        let l1 = l\<lparr>fuse_map := (fuse_map l)(0 := True, 1 := True)\<rparr>;
            l2 = (if \<not> fuse_hor_vel s
                  then l1\<lparr>innovation :=
                         (innovation l1)(0 := aux_vel_innov s 0, 1 := aux_vel_innov s 1)\<rparr>
                  else l1);
            l3 = l2\<lparr>R := (R l2)(0 := velObsVarNE s 0, 1 := velObsVarNE s 1)\<rparr>
        in l3\<lparr>gate_size := (gate_size l3)(0 := hvelInnovGate s, 1 := hvelInnovGate s)\<rparr>
      else l)"

text \<open>Lines 78--87: the vertical velocity observation.\<close>

definition vert_vel_obs :: "ekf \<Rightarrow> observations \<Rightarrow> observations" where
  "vert_vel_obs s l =
     (if fuse_vert_vel s then
        let l1 = l\<lparr>fuse_map := (fuse_map l)(2 := True)\<rparr>;
            r1 = max (gps_vel_noise (params s)) 0.01;
            r2 = 1.5 * max r1 (gps_sample_sacc (sample s));
            l2 = l1\<lparr>R := (R l1)(2 := r2 * r2)\<rparr>
        in l2\<lparr>gate_size := (gate_size l2)(2 := max (vel_innov_gate (params s)) 1)\<rparr>
      else l)"

text \<open>Lines 89--97: the NE position observations.\<close>

definition pos_obs :: "ekf \<Rightarrow> observations \<Rightarrow> observations" where
  "pos_obs s l =
     (if fuse_pos s then
        let l1 = l\<lparr>fuse_map := (fuse_map l)(3 := True, 4 := True)\<rparr>;
            l2 = l1\<lparr>R := (R l1)(3 := sq (posObsNoiseNE s), 4 := sq (posObsNoiseNE s))\<rparr>
        in l2\<lparr>gate_size := (gate_size l2)(3 := posInnovGateNE s, 4 := posInnovGateNE s)\<rparr>
      else l)"

text \<open>Lines 110--124: the ground-effect deadzone applied to a baro innovation, with
  \<^verbatim>\<open>deadzone_start = 0\<close> and \<^verbatim>\<open>deadzone_end = deadzone_start + gnd_effect_deadzone\<close>.\<close>

definition gnd_effect_compensate :: "bool \<Rightarrow> real \<Rightarrow> real \<Rightarrow> real" where
  "gnd_effect_compensate gnd_effect_flag deadzone innov =
     (let deadzone_start = 0;
          deadzone_end = deadzone_start + deadzone
      in if gnd_effect_flag then
           if innov < - deadzone_start then
             if innov \<le> - deadzone_end then innov + deadzone_end else - deadzone_start
           else innov
         else innov)"

text \<open>Lines 100--124: the baro branch.\<close>

definition baro_hgt_obs :: "ekf \<Rightarrow> observations \<Rightarrow> observations" where
  "baro_hgt_obs s l =
     (let l1 = l\<lparr>fuse_map := (fuse_map l)(5 := True)\<rparr>;
          l2 = l1\<lparr>innovation := (innovation l1)
                 (5 := state s 9 + baro_sample_hgt (sample s) - baro_hgt_offset s
                       - hgt_sensor_offset s)\<rparr>;
          r = max (baro_noise (params s)) 0.01;
          l3 = l2\<lparr>R := (R l2)(5 := r * r)\<rparr>;
          l4 = l3\<lparr>gate_size := (gate_size l3)(5 := max (baro_innov_gate (params s)) 1)\<rparr>
      in l4\<lparr>innovation := (innovation l4)
              (5 := gnd_effect_compensate (gnd_effect (control_status s))
                      (gnd_effect_deadzone (params s)) (innovation l4 5))\<rparr>)"

text \<open>Lines 126--137: the GPS branch.\<close>

definition gps_hgt_obs :: "ekf \<Rightarrow> observations \<Rightarrow> observations" where
  "gps_hgt_obs s l =
     (let l1 = l\<lparr>fuse_map := (fuse_map l)(5 := True)\<rparr>;
          l2 = l1\<lparr>innovation := (innovation l1)
                 (5 := state s 9 + gps_sample_hgt (sample s) - gps_alt_ref s
                       - hgt_sensor_offset s)\<rparr>;
          lower_limit = max (gps_pos_noise (params s)) 0.01;
          upper_limit = max (pos_noaid_noise (params s)) lower_limit;
          r = 1.5 * constrain (gps_sample_vacc (sample s)) lower_limit upper_limit;
          l3 = l2\<lparr>R := (R l2)(5 := r * r)\<rparr>
      in l3\<lparr>gate_size := (gate_size l3)(5 := max (baro_innov_gate (params s)) 1)\<rparr>)"

text \<open>Lines 139--146: the range finder branch.\<close>

definition rng_hgt_obs :: "ekf \<Rightarrow> observations \<Rightarrow> observations" where
  "rng_hgt_obs s l =
     (let l1 = l\<lparr>fuse_map := (fuse_map l)(5 := True)\<rparr>;
          l2 = l1\<lparr>innovation := (innovation l1)
                 (5 := state s 9
                       - (- max (range_sample_rng (sample s) * R_rng_to_earth_2_2 s)
                              (rng_gnd_clearance (params s)))
                       - hgt_sensor_offset s)\<rparr>;
          l3 = l2\<lparr>R := (R l2)
                 (5 := max ((sq (range_noise (params s))
                             + sq (range_noise_scaler (params s) * range_sample_rng (sample s)))
                            * sq (R_rng_to_earth_2_2 s)) 0.01)\<rparr>
      in l3\<lparr>gate_size := (gate_size l3)(5 := max (range_innov_gate (params s)) 1)\<rparr>)"

text \<open>Lines 148--157: the external vision branch.\<close>

definition ev_hgt_obs :: "ekf \<Rightarrow> observations \<Rightarrow> observations" where
  "ev_hgt_obs s l =
     (let l1 = l\<lparr>fuse_map := (fuse_map l)(5 := True)\<rparr>;
          l2 = l1\<lparr>innovation := (innovation l1)
                 (5 := state s 9 - ev_sample_posNED2 (sample s))\<rparr>;
          r = max (ev_sample_posErr (sample s)) 0.01;
          l3 = l2\<lparr>R := (R l2)(5 := r * r)\<rparr>
      in l3\<lparr>gate_size := (gate_size l3)(5 := max (ev_innov_gate (params s)) 1)\<rparr>)"

text \<open>Lines 99--183: the height observation. The chain of branches has no final
  \<^verbatim>\<open>else\<close>; line 182 writes the local innovation back in every case.\<close>

definition hgt_obs :: "ekf \<Rightarrow> observations \<Rightarrow> observations \<times> ekf" where
  "hgt_obs s l =
     (if fuse_height s then
        let l1 = (if baro_hgt (control_status s) then baro_hgt_obs s l
                  else if gps_hgt (control_status s) then gps_hgt_obs s l
                  else if rng_hgt (control_status s)
                          \<and> R_rng_to_earth_2_2 s > range_cos_max_tilt (params s)
                       then rng_hgt_obs s l
                  else if ev_hgt (control_status s) then ev_hgt_obs s l
                  else l)
        in (l1, s\<lparr>vel_pos_innov := (vel_pos_innov s)(5 := innovation l1 5)\<rparr>)
      else (l, s))"

section \<open>The innovation gate (lines 185--206)\<close>

text \<open>Lines 187--194: the body of the test-ratio loop.\<close>

definition calc_test_ratio :: "observations \<Rightarrow> nat \<Rightarrow> ekf \<Rightarrow> ekf" where
  "calc_test_ratio l obs_index s =
     (if fuse_map l obs_index then
        let state_index = obs_index + 4;
            s1 = s\<lparr>vel_pos_innov_var := (vel_pos_innov_var s)
                   (obs_index := P s state_index state_index + R l obs_index)\<rparr>
        in s1\<lparr>vel_pos_test_ratio := (vel_pos_test_ratio s1)
                (obs_index := sq (innovation l obs_index)
                              / (sq (gate_size l obs_index) * vel_pos_innov_var s1 obs_index))\<rparr>
      else s)"

text \<open>Lines 201--206: the three checks, on the stored test ratios.\<close>

definition vel_check_pass :: "ekf \<Rightarrow> bool" where
  "vel_check_pass s =
     (vel_pos_test_ratio s 0 \<le> 1 \<and> vel_pos_test_ratio s 1 \<le> 1 \<and> vel_pos_test_ratio s 2 \<le> 1)"

definition pos_check_pass :: "ekf \<Rightarrow> bool" where
  "pos_check_pass s =
     ((vel_pos_test_ratio s 3 \<le> 1 \<and> vel_pos_test_ratio s 4 \<le> 1)
      \<or> \<not> tilt_align (control_status s))"

definition hgt_check_pass :: "ekf \<Rightarrow> bool" where
  "hgt_check_pass s = (vel_pos_test_ratio s 5 \<le> 1 \<or> \<not> tilt_align (control_status s))"

definition innov_checks :: "ekf \<Rightarrow> observations \<Rightarrow> observations" where
  "innov_checks s l =
     (let l1 = l\<lparr>innov_check_pass_map := (innov_check_pass_map l)
                 (0 := vel_check_pass s, 1 := vel_check_pass s, 2 := vel_check_pass s)\<rparr>;
          l2 = l1\<lparr>innov_check_pass_map := (innov_check_pass_map l1)
                 (3 := pos_check_pass s, 4 := pos_check_pass s)\<rparr>
      in l2\<lparr>innov_check_pass_map := (innov_check_pass_map l2)(5 := hgt_check_pass s)\<rparr>)"

section \<open>The health and timing ledger (lines 208--245)\<close>

text \<open>Lines 209--217.\<close>

definition record_vel_fuse :: "bool \<Rightarrow> ekf \<Rightarrow> ekf" where
  "record_vel_fuse vel_pass s =
     (let s1 =
        (if (fuse_hor_vel s \<or> fuse_hor_vel_aux s \<or> fuse_vert_vel s) \<and> vel_pass then
           s\<lparr>time_last_vel_fuse := time_last_imu s,
             innov_check_fail_status := (innov_check_fail_status s)\<lparr>reject_vel_NED := False\<rparr>\<rparr>
         else if \<not> vel_pass then
           s\<lparr>innov_check_fail_status := (innov_check_fail_status s)\<lparr>reject_vel_NED := True\<rparr>\<rparr>
         else s)
      in s1\<lparr>fuse_hor_vel := False, fuse_hor_vel_aux := False, fuse_vert_vel := False\<rparr>)"

text \<open>Lines 220--234.\<close>

definition record_pos_fuse :: "bool \<Rightarrow> ekf \<Rightarrow> ekf" where
  "record_pos_fuse pos_pass s =
     (let s1 =
        (if pos_pass \<and> fuse_pos s then
           let s2 = (if \<not> fuse_hpos_as_odom s then s\<lparr>time_last_pos_fuse := time_last_imu s\<rparr>
                     else s\<lparr>time_last_delpos_fuse := time_last_imu s\<rparr>)
           in s2\<lparr>innov_check_fail_status :=
                   (innov_check_fail_status s2)\<lparr>reject_pos_NE := False\<rparr>\<rparr>
         else if \<not> pos_pass then
           s\<lparr>innov_check_fail_status := (innov_check_fail_status s)\<lparr>reject_pos_NE := True\<rparr>\<rparr>
         else s)
      in s1\<lparr>fuse_pos := False\<rparr>)"

text \<open>Lines 237--245.\<close>

definition record_hgt_fuse :: "bool \<Rightarrow> ekf \<Rightarrow> ekf" where
  "record_hgt_fuse hgt_pass s =
     (let s1 =
        (if hgt_pass \<and> fuse_height s then
           s\<lparr>time_last_hgt_fuse := time_last_imu s,
             innov_check_fail_status := (innov_check_fail_status s)\<lparr>reject_pos_D := False\<rparr>\<rparr>
         else if \<not> hgt_pass then
           s\<lparr>innov_check_fail_status := (innov_check_fail_status s)\<lparr>reject_pos_D := True\<rparr>\<rparr>
         else s)
      in s1\<lparr>fuse_height := False\<rparr>)"

section \<open>The sequential updater (lines 247--340)\<close>

text \<open>Lines 256--258: the gain. The array is overwritten in all 24 entries at every
  observation that is fused, so each observation starts from the zero array of line 56.\<close>

definition calc_Kfusion :: "ekf \<Rightarrow> nat \<Rightarrow> nat \<Rightarrow> vec" where
  "calc_Kfusion s obs_index state_index =
     for_loop 0 k_num_states
       (\<lambda>row Kfusion. Kfusion(row := P s row state_index / vel_pos_innov_var s obs_index))
       (\<lambda>_. 0)"

text \<open>Lines 261--267: the covariance decrement; every entry is written before it is
  read.\<close>

definition calc_KHP :: "ekf \<Rightarrow> vec \<Rightarrow> nat \<Rightarrow> mat" where
  "calc_KHP s Kfusion state_index =
     for_loop 0 k_num_states
       (\<lambda>row. for_loop 0 k_num_states
          (\<lambda>column KHP. KHP(row := (KHP row)(column := Kfusion row * P s state_index column))))
       (\<lambda>_ _. 0)"

text \<open>Lines 283--300 and 304--321: the fault flag of the observation.\<close>

definition set_bad :: "nat \<Rightarrow> bool \<Rightarrow> fault_status \<Rightarrow> fault_status" where
  "set_bad obs_index v f =
     (if obs_index = 0 then f\<lparr>bad_vel_N := v\<rparr>
      else if obs_index = 1 then f\<lparr>bad_vel_E := v\<rparr>
      else if obs_index = 2 then f\<lparr>bad_vel_D := v\<rparr>
      else if obs_index = 3 then f\<lparr>bad_pos_N := v\<rparr>
      else if obs_index = 4 then f\<lparr>bad_pos_E := v\<rparr>
      else if obs_index = 5 then f\<lparr>bad_pos_D := v\<rparr>
      else f)"

text \<open>Lines 274--322: the body of the loop over the diagonal, on the pair of the local
  \<^verbatim>\<open>healthy\<close> and the filter.\<close>

definition check_variance :: "nat \<Rightarrow> mat \<Rightarrow> nat \<Rightarrow> bool \<times> ekf \<Rightarrow> bool \<times> ekf" where
  "check_variance obs_index KHP i hs =
     (case hs of (healthy, s) \<Rightarrow>
        if P s i i < KHP i i then
          (False, s\<lparr>P := zeroCols (zeroRows (P s) i i) i i,
                    fault_status := set_bad obs_index True (fault_status s)\<rparr>)
        else
          (healthy, s\<lparr>fault_status := set_bad obs_index False (fault_status s)\<rparr>))"

text \<open>Lines 328--332: the covariance correction.\<close>

definition apply_cov_correction :: "mat \<Rightarrow> mat \<Rightarrow> mat" where
  "apply_cov_correction cov KHP =
     for_loop 0 k_num_states
       (\<lambda>row. for_loop 0 k_num_states
          (\<lambda>column M. M(row := (M row)(column := M row column - KHP row column))))
       cov"

text \<open>Lines 248--339: the body of the loop over the observations.\<close>

definition fuse_obs ::
  "(ekf \<Rightarrow> mat) \<Rightarrow> (vec \<Rightarrow> real \<Rightarrow> ekf \<Rightarrow> vec) \<Rightarrow> observations \<Rightarrow> nat \<Rightarrow> ekf \<Rightarrow> ekf" where
  "fuse_obs fixCovarianceErrors fuse l obs_index s =
     (if \<not> fuse_map l obs_index \<or> \<not> innov_check_pass_map l obs_index then s
      else
        let state_index = obs_index + 4;
            Kfusion = calc_Kfusion s obs_index state_index;
            KHP = calc_KHP s Kfusion state_index
        in case for_loop 0 k_num_states (check_variance obs_index KHP) (True, s) of
             (healthy, s1) \<Rightarrow>
               if healthy then
                 let s2 = s1\<lparr>P := apply_cov_correction (P s1) KHP\<rparr>;
                     s3 = s2\<lparr>P := fixCovarianceErrors s2\<rparr>
                 in s3\<lparr>state := fuse Kfusion (innovation l obs_index) s3\<rparr>
               else s1)"

section \<open>The routine\<close>

text \<open>The locals after the assembler and the filter after line 182.\<close>

definition assemble :: "ekf \<Rightarrow> observations \<times> ekf" where
  "assemble s = hgt_obs s (pos_obs s (vert_vel_obs s (hor_vel_obs s (init_obs s))))"

text \<open>The filter after the test-ratio loop of lines 186--195.\<close>

definition gate :: "ekf \<Rightarrow> ekf" where
  "gate s = (case assemble s of (l, s1) \<Rightarrow> for_loop 0 6 (calc_test_ratio l) s1)"

text \<open>The locals after line 206.\<close>

definition checked_obs :: "ekf \<Rightarrow> observations" where
  "checked_obs s = innov_checks (gate s) (fst (assemble s))"

text \<open>The filter after line 245.\<close>

definition ledger :: "ekf \<Rightarrow> ekf" where
  "ledger s =
     (let s2 = gate s;
          s3 = record_vel_fuse (vel_check_pass s2) s2;
          s4 = record_pos_fuse (pos_check_pass s2) s3
      in record_hgt_fuse (innov_check_pass_map (checked_obs s) 5) s4)"

definition fuseVelPosHeight ::
  "(ekf \<Rightarrow> mat) \<Rightarrow> (vec \<Rightarrow> real \<Rightarrow> ekf \<Rightarrow> vec) \<Rightarrow> ekf \<Rightarrow> ekf" where
  "fuseVelPosHeight fixCovarianceErrors fuse s =
     for_loop 0 6 (fuse_obs fixCovarianceErrors fuse (checked_obs s)) (ledger s)"

section \<open>Notions used in the statements\<close>

text \<open>The test of line 274 at diagonal index \<open>i\<close>, for a covariance and a decrement.\<close>

definition guard_fails :: "mat \<Rightarrow> mat \<Rightarrow> nat \<Rightarrow> bool" where
  "guard_fails cov KHP i = (cov i i < KHP i i)"

text \<open>The decrement matrix that lines 256--267 build for observation \<open>k\<close> in filter \<open>s\<close>.\<close>

definition KHP_of :: "ekf \<Rightarrow> nat \<Rightarrow> mat" where
  "KHP_of s k = calc_KHP s (calc_Kfusion s k (k + 4)) (k + 4)"

text \<open>The fault flag that lines 283--300 and 304--321 write for an observation, read back.\<close>

definition get_bad :: "nat \<Rightarrow> fault_status \<Rightarrow> bool" where
  "get_bad obs_index f =
     (if obs_index = 0 then bad_vel_N f
      else if obs_index = 1 then bad_vel_E f
      else if obs_index = 2 then bad_vel_D f
      else if obs_index = 3 then bad_pos_N f
      else if obs_index = 4 then bad_pos_E f
      else bad_pos_D f)"

text \<open>Some branch of the chain of lines 100--157 is taken.\<close>

definition hgt_source_ready :: "ekf \<Rightarrow> bool" where
  "hgt_source_ready s =
     (baro_hgt (control_status s) \<or> gps_hgt (control_status s)
      \<or> (rng_hgt (control_status s) \<and> R_rng_to_earth_2_2 s > range_cos_max_tilt (params s))
      \<or> ev_hgt (control_status s))"

text \<open>Two filters that differ at most in the state vector, the covariance and the fault
  flags: all the sequential updater may write.\<close>

definition updater_frame :: "ekf \<Rightarrow> ekf \<Rightarrow> bool" where
  "updater_frame s t = (t = s\<lparr>state := state t, P := P t, fault_status := fault_status t\<rparr>)"

text \<open>The spec's selection rule for the height source: the sources in the order baro, GPS,
  range, external vision, the first whose control flag is set wins; the range finder counts
  only while the tilt term exceeds the limit.\<close>

datatype height_source = BARO | GPS | RNG | EV

definition source_selected :: "ekf \<Rightarrow> height_source \<Rightarrow> bool" where
  "source_selected s src =
     (case src of
        BARO \<Rightarrow> baro_hgt (control_status s)
      | GPS \<Rightarrow> gps_hgt (control_status s)
      | RNG \<Rightarrow> rng_hgt (control_status s)
                \<and> R_rng_to_earth_2_2 s > range_cos_max_tilt (params s)
      | EV \<Rightarrow> ev_hgt (control_status s))"

definition first_selected_source :: "ekf \<Rightarrow> height_source option" where
  "first_selected_source s = find (source_selected s) [BARO, GPS, RNG, EV]"

text \<open>The branch of lines 100--157 that belongs to a source.\<close>

definition source_obs :: "height_source \<Rightarrow> ekf \<Rightarrow> observations \<Rightarrow> observations" where
  "source_obs src =
     (case src of BARO \<Rightarrow> baro_hgt_obs | GPS \<Rightarrow> gps_hgt_obs | RNG \<Rightarrow> rng_hgt_obs
      | EV \<Rightarrow> ev_hgt_obs)"

section \<open>Example filters\<close>

text \<open>A filter with unit covariance, zero state and innovations, no request pending, tilt
  aligned, IMU time 7 and all fusion time stamps 3.\<close>

definition filter_at_rest :: ekf where
  "filter_at_rest =
     \<lparr>state = (\<lambda>_. 0), P = (\<lambda>r c. if r = c then 1 else 0),
      vel_pos_innov = (\<lambda>_. 0), aux_vel_innov = (\<lambda>_. 0),
      vel_pos_innov_var = (\<lambda>_. 0), vel_pos_test_ratio = (\<lambda>_. 0),
      velObsVarNE = (\<lambda>_. 1), hvelInnovGate = 1, posObsNoiseNE = 1, posInnovGateNE = 1,
      fuse_hor_vel = False, fuse_hor_vel_aux = False, fuse_vert_vel = False,
      fuse_pos = False, fuse_height = False, fuse_hpos_as_odom = False,
      params = \<lparr>gps_vel_noise = 1, vel_innov_gate = 1, baro_noise = 1, baro_innov_gate = 5,
                gps_pos_noise = 1, pos_noaid_noise = 10, range_noise = 1,
                range_noise_scaler = 0, rng_gnd_clearance = 1 / 10,
                range_cos_max_tilt = 7 / 10, range_innov_gate = 5, ev_innov_gate = 5,
                gnd_effect_deadzone = 1 / 2\<rparr>,
      control_status = \<lparr>tilt_align = True, baro_hgt = False, gps_hgt = False,
                        rng_hgt = False, ev_hgt = False, gnd_effect = False\<rparr>,
      fault_status = \<lparr>bad_vel_N = False, bad_vel_E = False, bad_vel_D = False,
                      bad_pos_N = False, bad_pos_E = False, bad_pos_D = False\<rparr>,
      innov_check_fail_status =
        \<lparr>reject_vel_NED = False, reject_pos_NE = False, reject_pos_D = False\<rparr>,
      sample = \<lparr>gps_sample_hgt = 0, gps_sample_sacc = 0, gps_sample_vacc = 0,
                baro_sample_hgt = 0, range_sample_rng = 0, ev_sample_posNED2 = 0,
                ev_sample_posErr = 0\<rparr>,
      baro_hgt_offset = 0, gps_alt_ref = 0, hgt_sensor_offset = 0, R_rng_to_earth_2_2 = 1,
      time_last_imu = 7, time_last_vel_fuse = 3, time_last_pos_fuse = 3,
      time_last_delpos_fuse = 3, time_last_hgt_fuse = 3\<rparr>"

text \<open>Every request flag raised, baro height.\<close>

definition full_tick :: ekf where
  "full_tick =
     filter_at_rest\<lparr>fuse_hor_vel := True, fuse_hor_vel_aux := True, fuse_vert_vel := True,
       fuse_pos := True, fuse_height := True,
       control_status := (control_status filter_at_rest)\<lparr>baro_hgt := True\<rparr>\<rparr>"

text \<open>No request pending, but every stored test ratio is 2, left by an earlier tick.\<close>

definition stale_tick :: ekf where
  "stale_tick = filter_at_rest\<lparr>vel_pos_test_ratio := (\<lambda>_. 2)\<rparr>"

text \<open>A horizontal velocity request with zero innovations, while the stored test ratio of
  the vertical velocity is 2; and the same filter with that one stored ratio set to 0.\<close>

definition hor_vel_tick_stale :: ekf where
  "hor_vel_tick_stale =
     filter_at_rest\<lparr>fuse_hor_vel := True,
       vel_pos_test_ratio := (\<lambda>i. if i = 2 then 2 else 0)\<rparr>"

definition hor_vel_tick_fresh :: ekf where
  "hor_vel_tick_fresh =
     hor_vel_tick_stale\<lparr>vel_pos_test_ratio := (vel_pos_test_ratio hor_vel_tick_stale)(2 := 0)\<rparr>"

text \<open>Scenario S4 of the spec: a height request with the range finder as the only height
  source, tilted beyond the limit (0.5 against 0.7); the height reject flag is set on
  entry and the stored test ratio of the height is 0.\<close>

definition tilted_range_tick :: ekf where
  "tilted_range_tick =
     filter_at_rest\<lparr>fuse_height := True,
       control_status := (control_status filter_at_rest)\<lparr>rng_hgt := True\<rparr>,
       R_rng_to_earth_2_2 := 1 / 2,
       innov_check_fail_status :=
         (innov_check_fail_status filter_at_rest)\<lparr>reject_pos_D := True\<rparr>\<rparr>"

text \<open>A vertical velocity request on a covariance that is not positive semi-definite:
  unit diagonal except \<open>P[0][0] = 0.1\<close>, and \<open>P[0][6] = P[6][0] = 1\<close>. The observation
  variance of slot 2 is \<open>2.25\<close>, its innovation variance \<open>3.25\<close>, its innovation zero.\<close>

definition degenerate_tick :: ekf where
  "degenerate_tick =
     filter_at_rest\<lparr>fuse_vert_vel := True,
       P := (\<lambda>r c. if r = c then (if r = 0 then 1 / 10 else 1)
                    else if (r = 0 \<and> c = 6) \<or> (r = 6 \<and> c = 0) then 1 else 0)\<rparr>"

text \<open>The same with a baro height request whose innovation is 1.\<close>

definition degenerate_height_tick :: ekf where
  "degenerate_height_tick =
     degenerate_tick\<lparr>fuse_height := True,
       control_status := (control_status filter_at_rest)\<lparr>baro_hgt := True\<rparr>,
       sample := (sample filter_at_rest)\<lparr>baro_sample_hgt := 1\<rparr>\<rparr>"

text \<open>A horizontal velocity request with correlated north and east velocity,
  \<open>P[4][5] = P[5][4] = 0.5\<close>, and zero innovations.\<close>

definition correlated_vel_tick :: ekf where
  "correlated_vel_tick =
     filter_at_rest\<lparr>fuse_hor_vel := True,
       P := (\<lambda>r c. if r = c then 1
                    else if (r = 4 \<and> c = 5) \<or> (r = 5 \<and> c = 4) then 1 / 2 else 0)\<rparr>"

text \<open>No request, and stored innovation variances of 5 left by an earlier tick.\<close>

definition stale_var_tick :: ekf where
  "stale_var_tick = filter_at_rest\<lparr>vel_pos_innov_var := (\<lambda>_. 5)\<rparr>"

text \<open>Scenario S3 of the spec: a baro height request in ground effect, the raw innovation
  \<open>-0.3\<close> inside the deadzone of \<open>0.5\<close>.\<close>

definition ground_effect_tick :: ekf where
  "ground_effect_tick =
     filter_at_rest\<lparr>fuse_height := True,
       control_status := (control_status filter_at_rest)\<lparr>baro_hgt := True, gnd_effect := True\<rparr>,
       sample := (sample filter_at_rest)\<lparr>baro_sample_hgt := - (3 / 10)\<rparr>\<rparr>"

text \<open>A height request with the GPS, range finder and vision flags all set, in ground
  effect; the GPS height sample gives a raw innovation of \<open>-0.3\<close>, and the baro gate
  parameter is 3 while the range and vision gates are 5.\<close>

definition gps_range_vision_tick :: ekf where
  "gps_range_vision_tick =
     filter_at_rest\<lparr>fuse_height := True,
       params := (params filter_at_rest)\<lparr>baro_innov_gate := 3\<rparr>,
       control_status := (control_status filter_at_rest)
         \<lparr>gps_hgt := True, rng_hgt := True, ev_hgt := True, gnd_effect := True\<rparr>,
       sample := (sample filter_at_rest)\<lparr>gps_sample_hgt := - (3 / 10)\<rparr>\<rparr>"

section \<open>Counted loops\<close>

lemma for_loop_done: "n \<le> i \<Longrightarrow> for_loop i n body s = s"
  by (simp add: for_loop.simps)

lemma for_loop_step: "i < n \<Longrightarrow> for_loop i n body s = for_loop (Suc i) n body (body i s)"
  by (subst for_loop.simps) simp

lemma for_loop_split:
  "i \<le> k \<Longrightarrow> k \<le> n \<Longrightarrow> for_loop i n body s = for_loop k n body (for_loop i k body s)"
proof (induction "k - i" arbitrary: i s)
  case 0
  then show ?case by (simp add: for_loop_done)
next
  case (Suc d)
  then have lt: "i < k" "i < n" and d: "d = k - Suc i" by simp_all
  have "for_loop i n body s = for_loop (Suc i) n body (body i s)"
    using lt by (simp add: for_loop_step)
  also have "\<dots> = for_loop k n body (for_loop (Suc i) k body (body i s))"
    using Suc.hyps(1) [OF d] lt Suc.prems by simp
  also have "for_loop (Suc i) k body (body i s) = for_loop i k body s"
    using lt by (simp add: for_loop_step)
  finally show ?case .
qed

lemma for_loop_last: "i \<le> n \<Longrightarrow> for_loop i (Suc n) body s = body n (for_loop i n body s)"
  using for_loop_split [of i n "Suc n" body s]
  by (simp add: for_loop_step for_loop_done)

lemma for_loop_inv:
  assumes "Inv i s" and "i \<le> n"
    and "\<And>j t. i \<le> j \<Longrightarrow> j < n \<Longrightarrow> Inv j t \<Longrightarrow> Inv (Suc j) (body j t)"
  shows "Inv n (for_loop i n body s)"
  using assms
proof (induction "n - i" arbitrary: i s)
  case 0
  then show ?case by (simp add: for_loop_done)
next
  case (Suc d)
  then have lt: "i < n" and d: "d = n - Suc i" by simp_all
  have "Inv n (for_loop (Suc i) n body (body i s))"
  proof (rule Suc.hyps(1) [OF d])
    show "Inv (Suc i) (body i s)" using Suc.prems lt by simp
    show "Suc i \<le> n" using lt by simp
    show "\<And>j t. Suc i \<le> j \<Longrightarrow> j < n \<Longrightarrow> Inv j t \<Longrightarrow> Inv (Suc j) (body j t)"
      using Suc.prems(3) by simp
  qed
  then show ?case using lt by (simp add: for_loop_step)
qed

lemma for_loop_preserve:
  assumes "\<And>j t. Q t \<Longrightarrow> Q (body j t)" and "Q s"
  shows "Q (for_loop i n body s)"
proof (cases "i \<le> n")
  case True
  show ?thesis
    by (rule for_loop_inv [where Inv = "\<lambda>_. Q", OF assms(2) True]) (rule assms(1))
next
  case False
  then show ?thesis using assms(2) by (simp add: for_loop_done)
qed

lemma updater_resume:
  assumes "k < n"
  shows "for_loop 0 n body u = for_loop (Suc k) n body (body k (for_loop 0 k body u))"
proof -
  have "for_loop 0 n body u = for_loop k n body (for_loop 0 k body u)"
    using assms by (simp add: for_loop_split [of 0 k n])
  then show ?thesis using assms by (simp add: for_loop_step)
qed

section \<open>The array loops in closed form\<close>

lemma fill_vec:
  "for_loop 0 n (\<lambda>i K. K(i := f i)) K0 = (\<lambda>i. if i < n then f i else K0 i)"
proof (rule for_loop_inv [where Inv = "\<lambda>j K. K = (\<lambda>i. if i < j then f i else K0 i)"])
  show "K0 = (\<lambda>i. if i < 0 then f i else K0 i)" by simp
  show "0 \<le> n" by simp
  fix j t
  assume "t = (\<lambda>i. if i < j then f i else K0 i)"
  then show "t(j := f j) = (\<lambda>i. if i < Suc j then f i else K0 i)"
    by (auto simp: fun_eq_iff less_Suc_eq)
qed

lemma fill_row:
  "for_loop 0 m (\<lambda>col M. M(row := (M row)(col := h col (M row col)))) M0 =
     (\<lambda>r c. if r = row \<and> c < m then h c (M0 r c) else M0 r c)"
proof (rule for_loop_inv
    [where Inv = "\<lambda>j M. M = (\<lambda>r c. if r = row \<and> c < j then h c (M0 r c) else M0 r c)"])
  show "M0 = (\<lambda>r c. if r = row \<and> c < 0 then h c (M0 r c) else M0 r c)" by simp
  show "0 \<le> m" by simp
  fix j t
  assume "t = (\<lambda>r c. if r = row \<and> c < j then h c (M0 r c) else M0 r c)"
  then show "t(row := (t row)(j := h j (t row j))) =
      (\<lambda>r c. if r = row \<and> c < Suc j then h c (M0 r c) else M0 r c)"
    by (auto simp: fun_eq_iff less_Suc_eq)
qed

lemma fill_mat:
  "for_loop 0 n
     (\<lambda>row. for_loop 0 m (\<lambda>col M. M(row := (M row)(col := h row col (M row col))))) M0 =
     (\<lambda>r c. if r < n \<and> c < m then h r c (M0 r c) else M0 r c)"
proof (rule for_loop_inv
    [where Inv = "\<lambda>j M. M = (\<lambda>r c. if r < j \<and> c < m then h r c (M0 r c) else M0 r c)"])
  show "M0 = (\<lambda>r c. if r < 0 \<and> c < m then h r c (M0 r c) else M0 r c)" by simp
  show "0 \<le> n" by simp
  fix j t
  assume "t = (\<lambda>r c. if r < j \<and> c < m then h r c (M0 r c) else M0 r c)"
  then show "for_loop 0 m (\<lambda>col M. M(j := (M j)(col := h j col (M j col)))) t =
      (\<lambda>r c. if r < Suc j \<and> c < m then h r c (M0 r c) else M0 r c)"
    by (auto simp: fill_row fun_eq_iff less_Suc_eq)
qed

lemma calc_Kfusion_eq:
  "calc_Kfusion s obs_index state_index =
     (\<lambda>row. if row < 24 then P s row state_index / vel_pos_innov_var s obs_index else 0)"
  by (simp add: calc_Kfusion_def k_num_states_def fill_vec)

lemma calc_KHP_eq:
  "calc_KHP s K state_index =
     (\<lambda>r c. if r < 24 \<and> c < 24 then K r * P s state_index c else 0)"
  unfolding calc_KHP_def k_num_states_def
  by (rule fill_mat [where h = "\<lambda>r c _. K r * P s state_index c" and ?M0.0 = "\<lambda>_ _. 0"])

lemma apply_cov_correction_eq:
  "apply_cov_correction cov KHP =
     (\<lambda>r c. if r < 24 \<and> c < 24 then cov r c - KHP r c else cov r c)"
  unfolding apply_cov_correction_def k_num_states_def
  by (rule fill_mat [where h = "\<lambda>r c v. v - KHP r c"])

section \<open>The loop over the diagonal\<close>

lemma set_bad_twice: "set_bad k v (set_bad k w f) = set_bad k v f"
  by (simp add: set_bad_def)

lemma get_bad_set_bad: "k < 6 \<Longrightarrow> get_bad k (set_bad k v f) = v"
  by (simp add: get_bad_def set_bad_def)

lemma check_variance_loop:
  "for_loop 0 n (check_variance k KHP) (True, s) =
     ((\<forall>i<n. \<not> guard_fails (P s) KHP i),
      s\<lparr>P := (\<lambda>r c. if (r < n \<and> guard_fails (P s) KHP r) \<or> (c < n \<and> guard_fails (P s) KHP c)
                      then 0 else P s r c),
        fault_status := (if n = 0 then fault_status s
                         else set_bad k (guard_fails (P s) KHP (n - 1)) (fault_status s))\<rparr>)"
  (is "_ = ?R n")
proof (rule for_loop_inv [where Inv = "\<lambda>j hs. hs = ?R j"])
  show "(True, s) = ?R 0" by simp
  show "0 \<le> n" by simp
  fix j t
  assume t: "t = ?R j"
  show "check_variance k KHP j t = ?R (Suc j)"
  proof (cases "guard_fails (P s) KHP j")
    case True
    then show ?thesis
      unfolding t check_variance_def
      by (auto simp: guard_fails_def zeroRows_def zeroCols_def set_bad_twice fun_eq_iff
          less_Suc_eq)
  next
    case False
    then have eq: "(\<lambda>r c. if (r < Suc j \<and> guard_fails (P s) KHP r)
                          \<or> (c < Suc j \<and> guard_fails (P s) KHP c) then 0 else P s r c) =
        (\<lambda>r c. if (r < j \<and> guard_fails (P s) KHP r)
                          \<or> (c < j \<and> guard_fails (P s) KHP c) then 0 else P s r c)"
      by (auto simp: fun_eq_iff less_Suc_eq)
    have nf: "\<not> P s j j < KHP j j" using False by (simp add: guard_fails_def)
    show ?thesis
      unfolding t check_variance_def eq
      using False nf by (simp add: set_bad_twice less_Suc_eq)
  qed
qed

section \<open>What the sequential updater may write\<close>

lemma updater_frame_refl: "updater_frame s s"
  by (simp add: updater_frame_def)

lemma updater_frame_trans:
  assumes "updater_frame s t" and "updater_frame t u"
  shows "updater_frame s u"
proof -
  have t: "t = s\<lparr>state := state t, P := P t, fault_status := fault_status t\<rparr>"
    using assms(1) by (simp add: updater_frame_def)
  have u: "u = t\<lparr>state := state u, P := P u, fault_status := fault_status u\<rparr>"
    using assms(2) by (simp add: updater_frame_def)
  have "u = (s\<lparr>state := state t, P := P t, fault_status := fault_status t\<rparr>)
               \<lparr>state := state u, P := P u, fault_status := fault_status u\<rparr>"
    using t u by simp
  then show ?thesis by (simp add: updater_frame_def)
qed

lemma updater_frameD:
  assumes "updater_frame s t"
  shows "fuse_hor_vel t = fuse_hor_vel s" and "fuse_hor_vel_aux t = fuse_hor_vel_aux s"
    and "fuse_vert_vel t = fuse_vert_vel s" and "fuse_pos t = fuse_pos s"
    and "fuse_height t = fuse_height s"
    and "time_last_vel_fuse t = time_last_vel_fuse s"
    and "time_last_pos_fuse t = time_last_pos_fuse s"
    and "time_last_delpos_fuse t = time_last_delpos_fuse s"
    and "time_last_hgt_fuse t = time_last_hgt_fuse s"
    and "innov_check_fail_status t = innov_check_fail_status s"
    and "vel_pos_innov_var t = vel_pos_innov_var s"
    and "vel_pos_test_ratio t = vel_pos_test_ratio s"
    and "vel_pos_innov t = vel_pos_innov s"
proof -
  have t: "t = s\<lparr>state := state t, P := P t, fault_status := fault_status t\<rparr>"
    using assms by (simp add: updater_frame_def)
  show "fuse_hor_vel t = fuse_hor_vel s" using arg_cong [OF t, of fuse_hor_vel] by simp
  show "fuse_hor_vel_aux t = fuse_hor_vel_aux s"
    using arg_cong [OF t, of fuse_hor_vel_aux] by simp
  show "fuse_vert_vel t = fuse_vert_vel s" using arg_cong [OF t, of fuse_vert_vel] by simp
  show "fuse_pos t = fuse_pos s" using arg_cong [OF t, of fuse_pos] by simp
  show "fuse_height t = fuse_height s" using arg_cong [OF t, of fuse_height] by simp
  show "time_last_vel_fuse t = time_last_vel_fuse s"
    using arg_cong [OF t, of time_last_vel_fuse] by simp
  show "time_last_pos_fuse t = time_last_pos_fuse s"
    using arg_cong [OF t, of time_last_pos_fuse] by simp
  show "time_last_delpos_fuse t = time_last_delpos_fuse s"
    using arg_cong [OF t, of time_last_delpos_fuse] by simp
  show "time_last_hgt_fuse t = time_last_hgt_fuse s"
    using arg_cong [OF t, of time_last_hgt_fuse] by simp
  show "innov_check_fail_status t = innov_check_fail_status s"
    using arg_cong [OF t, of innov_check_fail_status] by simp
  show "vel_pos_innov_var t = vel_pos_innov_var s"
    using arg_cong [OF t, of vel_pos_innov_var] by simp
  show "vel_pos_test_ratio t = vel_pos_test_ratio s"
    using arg_cong [OF t, of vel_pos_test_ratio] by simp
  show "vel_pos_innov t = vel_pos_innov s" using arg_cong [OF t, of vel_pos_innov] by simp
qed

lemma fuse_obs_skip:
  "\<not> fuse_map l k \<or> \<not> innov_check_pass_map l k \<Longrightarrow> fuse_obs fc fu l k s = s"
  by (auto simp: fuse_obs_def)

lemma KHP_of_eq:
  "KHP_of s k = (\<lambda>r c. if r < 24 \<and> c < 24
                        then P s r (k + 4) / vel_pos_innov_var s k * P s (k + 4) c else 0)"
  by (simp add: KHP_of_def calc_KHP_eq calc_Kfusion_eq fun_eq_iff)

lemma fuse_obs_unhealthy:
  assumes "fuse_map l k" and "innov_check_pass_map l k"
    and "i < 24" and "guard_fails (P s) (KHP_of s k) i"
  shows "fuse_obs fc fu l k s =
     s\<lparr>P := (\<lambda>r c. if (r < 24 \<and> guard_fails (P s) (KHP_of s k) r)
                        \<or> (c < 24 \<and> guard_fails (P s) (KHP_of s k) c) then 0 else P s r c),
       fault_status := set_bad k (guard_fails (P s) (KHP_of s k) 23) (fault_status s)\<rparr>"
proof -
  have nh: "(\<forall>i<24. \<not> guard_fails (P s) (KHP_of s k) i) = False"
    using assms(3,4) by blast
  show ?thesis
    using assms(1,2)
    by (simp add: fuse_obs_def Let_def k_num_states_def check_variance_loop
        KHP_of_def [symmetric] nh)
qed

lemma fuse_obs_healthy:
  assumes "fuse_map l k" and "innov_check_pass_map l k"
    and "\<forall>i<24. \<not> guard_fails (P s) (KHP_of s k) i"
  shows "fuse_obs fc fu l k s =
     (let s1 = s\<lparr>fault_status := set_bad k False (fault_status s)\<rparr>;
          s2 = s1\<lparr>P := apply_cov_correction (P s) (KHP_of s k)\<rparr>;
          s3 = s2\<lparr>P := fc s2\<rparr>
      in s3\<lparr>state := fu (calc_Kfusion s k (k + 4)) (innovation l k) s3\<rparr>)"
proof -
  have z: "(\<lambda>r c. if (r < 24 \<and> guard_fails (P s) (KHP_of s k) r)
                        \<or> (c < 24 \<and> guard_fails (P s) (KHP_of s k) c) then 0 else P s r c) = P s"
    using assms(3) by (auto simp: fun_eq_iff)
  have h: "(\<forall>i<24. \<not> guard_fails (P s) (KHP_of s k) i) = True"
    using assms(3) by simp
  have l: "guard_fails (P s) (KHP_of s k) 23 = False"
    using assms(3) by simp
  show ?thesis
    using assms(1,2)
    by (simp add: fuse_obs_def Let_def k_num_states_def check_variance_loop
        KHP_of_def [symmetric] z h l)
qed

lemma fuse_obs_frame: "updater_frame s (fuse_obs fc fu l k s)"
proof (cases "fuse_map l k \<and> innov_check_pass_map l k")
  case False
  then show ?thesis by (auto simp: fuse_obs_skip updater_frame_refl)
next
  case True
  show ?thesis
  proof (cases "\<forall>i<24. \<not> guard_fails (P s) (KHP_of s k) i")
    case True
    then show ?thesis
      using \<open>fuse_map l k \<and> innov_check_pass_map l k\<close>
      by (simp add: fuse_obs_healthy Let_def updater_frame_def)
  next
    case False
    then obtain i where "i < 24" "guard_fails (P s) (KHP_of s k) i" by blast
    then show ?thesis
      using \<open>fuse_map l k \<and> innov_check_pass_map l k\<close>
      by (simp add: fuse_obs_unhealthy [where i = i] updater_frame_def)
  qed
qed

lemma updater_loop_frame: "updater_frame s (for_loop i n (fuse_obs fc fu l) s)"
  by (rule for_loop_preserve [where Q = "updater_frame s"])
    (auto intro: updater_frame_trans fuse_obs_frame updater_frame_refl)

lemma updater_prefix_frame:
  "updater_frame (ledger s) (for_loop 0 k (fuse_obs fc fu l) (ledger s))"
  by (rule updater_loop_frame)

lemma routine_frame: "updater_frame (ledger s) (fuseVelPosHeight fc fu s)"
  unfolding fuseVelPosHeight_def by (rule updater_loop_frame)

lemma updater_idle:
  assumes "\<And>k. \<not> fuse_map l k"
  shows "for_loop i n (fuse_obs fc fu l) t = t"
  by (rule for_loop_preserve [where Q = "\<lambda>u. u = t"]) (simp_all add: fuse_obs_skip assms)

lemma updater_prefix_idle:
  assumes "\<And>j. j < k \<Longrightarrow> \<not> fuse_map l j"
  shows "for_loop 0 k (fuse_obs fc fu l) u = u"
proof (rule for_loop_inv [where Inv = "\<lambda>_ v. v = u"])
  show "u = u" by simp
  show "0 \<le> k" by simp
  fix j t
  assume "j < k" "t = u"
  then show "fuse_obs fc fu l j t = u" using assms by (simp add: fuse_obs_skip)
qed

lemma updater_range_idle:
  assumes "\<And>j. i \<le> j \<Longrightarrow> j < n \<Longrightarrow> \<not> fuse_map l j"
  shows "for_loop i n (fuse_obs fc fu l) u = u"
proof (cases "i \<le> n")
  case True
  show ?thesis
  proof (rule for_loop_inv [where Inv = "\<lambda>_ v. v = u", OF _ True])
    show "u = u" by simp
    fix j t
    assume "i \<le> j" "j < n" "t = u"
    then show "fuse_obs fc fu l j t = u" using assms by (simp add: fuse_obs_skip)
  qed
next
  case False
  then show ?thesis by (simp add: for_loop_done)
qed

lemma bad_flag_after_slot:
  assumes "k < 6" and "fuse_map l k" and "innov_check_pass_map l k"
  shows "get_bad k (fault_status (fuse_obs fc fu l k t)) = guard_fails (P t) (KHP_of t k) 23"
proof (cases "\<forall>i<24. \<not> guard_fails (P t) (KHP_of t k) i")
  case True
  then have "\<not> guard_fails (P t) (KHP_of t k) 23" by simp
  then show ?thesis
    using assms True by (simp add: fuse_obs_healthy Let_def get_bad_set_bad)
next
  case False
  then obtain i where "i < 24" "guard_fails (P t) (KHP_of t k) i" by blast
  then show ?thesis
    using assms by (simp add: fuse_obs_unhealthy [where i = i] get_bad_set_bad)
qed

section \<open>The assembler in closed form\<close>

lemma fuse_map_hor_vel_obs:
  "fuse_map (hor_vel_obs s l) i =
     (if i = 0 \<or> i = 1 then fuse_hor_vel s \<or> fuse_hor_vel_aux s \<or> fuse_map l i
      else fuse_map l i)"
  by (simp add: hor_vel_obs_def Let_def)

lemma fuse_map_vert_vel_obs:
  "fuse_map (vert_vel_obs s l) i = (if i = 2 then fuse_vert_vel s \<or> fuse_map l i else fuse_map l i)"
  by (simp add: vert_vel_obs_def Let_def)

lemma fuse_map_pos_obs:
  "fuse_map (pos_obs s l) i =
     (if i = 3 \<or> i = 4 then fuse_pos s \<or> fuse_map l i else fuse_map l i)"
  by (simp add: pos_obs_def Let_def)

lemma fuse_map_hgt_obs:
  "fuse_map (fst (hgt_obs s l)) i =
     (if i = 5 then (fuse_height s \<and> hgt_source_ready s) \<or> fuse_map l i else fuse_map l i)"
  by (auto simp: hgt_obs_def Let_def hgt_source_ready_def baro_hgt_obs_def gps_hgt_obs_def
      rng_hgt_obs_def ev_hgt_obs_def)

lemma fuse_map_assemble:
  "fuse_map (fst (assemble s)) i =
     (if i = 0 \<or> i = 1 then fuse_hor_vel s \<or> fuse_hor_vel_aux s
      else if i = 2 then fuse_vert_vel s
      else if i = 3 \<or> i = 4 then fuse_pos s
      else if i = 5 then fuse_height s \<and> hgt_source_ready s
      else False)"
  by (simp add: assemble_def fuse_map_hgt_obs fuse_map_pos_obs fuse_map_vert_vel_obs
      fuse_map_hor_vel_obs init_obs_def)

lemma snd_assemble:
  "snd (assemble s) =
     (if fuse_height s
      then s\<lparr>vel_pos_innov := (vel_pos_innov s)(5 := innovation (fst (assemble s)) 5)\<rparr>
      else s)"
  by (simp add: assemble_def hgt_obs_def Let_def)

lemma pass_map_assemble: "innov_check_pass_map (fst (assemble s)) = (\<lambda>_. False)"
proof -
  have a: "innov_check_pass_map (hor_vel_obs s l) = innov_check_pass_map l" for l
    by (simp add: hor_vel_obs_def Let_def)
  have b: "innov_check_pass_map (vert_vel_obs s l) = innov_check_pass_map l" for l
    by (simp add: vert_vel_obs_def Let_def)
  have c: "innov_check_pass_map (pos_obs s l) = innov_check_pass_map l" for l
    by (simp add: pos_obs_def Let_def)
  have d: "innov_check_pass_map (fst (hgt_obs s l)) = innov_check_pass_map l" for l
    by (simp add: hgt_obs_def Let_def baro_hgt_obs_def gps_hgt_obs_def rng_hgt_obs_def
        ev_hgt_obs_def)
  show ?thesis by (simp add: assemble_def a b c d init_obs_def)
qed

lemma hgt_obs_other:
  "i \<noteq> 5 \<Longrightarrow> innovation (fst (hgt_obs s l)) i = innovation l i"
  "i \<noteq> 5 \<Longrightarrow> R (fst (hgt_obs s l)) i = R l i"
  "i \<noteq> 5 \<Longrightarrow> gate_size (fst (hgt_obs s l)) i = gate_size l i"
  by (simp_all add: hgt_obs_def Let_def baro_hgt_obs_def gps_hgt_obs_def rng_hgt_obs_def
      ev_hgt_obs_def)

lemma hgt_obs_idle:
  "\<not> (fuse_height s \<and> hgt_source_ready s) \<Longrightarrow> fst (hgt_obs s l) = l"
  by (auto simp: hgt_obs_def Let_def hgt_source_ready_def)

lemma innovation_vel_pos_obs:
  "innovation (pos_obs s (vert_vel_obs s (hor_vel_obs s (init_obs s)))) i =
     (if (i = 0 \<or> i = 1) \<and> fuse_hor_vel_aux s \<and> \<not> fuse_hor_vel s then aux_vel_innov s i
      else vel_pos_innov s i)"
  by (auto simp: pos_obs_def vert_vel_obs_def hor_vel_obs_def init_obs_def Let_def)

lemma R_vel_pos_obs:
  "R (pos_obs s (vert_vel_obs s (hor_vel_obs s (init_obs s)))) i =
     (if i = 0 \<or> i = 1 then (if fuse_hor_vel s \<or> fuse_hor_vel_aux s then velObsVarNE s i else 0)
      else if i = 2
        then (if fuse_vert_vel s
              then (1.5 * max (max (gps_vel_noise (params s)) 0.01) (gps_sample_sacc (sample s)))
                   * (1.5 * max (max (gps_vel_noise (params s)) 0.01)
                              (gps_sample_sacc (sample s)))
              else 0)
      else if i = 3 \<or> i = 4 then (if fuse_pos s then sq (posObsNoiseNE s) else 0)
      else 0)"
  by (auto simp: pos_obs_def vert_vel_obs_def hor_vel_obs_def init_obs_def Let_def)

lemma gate_size_vel_pos_obs:
  "gate_size (pos_obs s (vert_vel_obs s (hor_vel_obs s (init_obs s)))) i =
     (if i = 0 \<or> i = 1 then (if fuse_hor_vel s \<or> fuse_hor_vel_aux s then hvelInnovGate s else 0)
      else if i = 2 then (if fuse_vert_vel s then max (vel_innov_gate (params s)) 1 else 0)
      else if i = 3 \<or> i = 4 then (if fuse_pos s then posInnovGateNE s else 0)
      else 0)"
  by (auto simp: pos_obs_def vert_vel_obs_def hor_vel_obs_def init_obs_def Let_def)

lemma assemble_below_5:
  assumes "i \<noteq> 5"
  shows "innovation (fst (assemble s)) i =
           (if (i = 0 \<or> i = 1) \<and> fuse_hor_vel_aux s \<and> \<not> fuse_hor_vel s then aux_vel_innov s i
            else vel_pos_innov s i)"
    and "R (fst (assemble s)) i =
           R (pos_obs s (vert_vel_obs s (hor_vel_obs s (init_obs s)))) i"
    and "gate_size (fst (assemble s)) i =
           gate_size (pos_obs s (vert_vel_obs s (hor_vel_obs s (init_obs s)))) i"
  using assms by (simp_all add: assemble_def hgt_obs_other innovation_vel_pos_obs)

lemma assemble_5_idle:
  assumes "\<not> (fuse_height s \<and> hgt_source_ready s)"
  shows "innovation (fst (assemble s)) 5 = vel_pos_innov s 5"
  using assms by (simp add: assemble_def hgt_obs_idle innovation_vel_pos_obs)

lemma assemble_5_baro:
  assumes "fuse_height s" and "baro_hgt (control_status s)"
  shows "innovation (fst (assemble s)) 5 =
           gnd_effect_compensate (gnd_effect (control_status s)) (gnd_effect_deadzone (params s))
             (state s 9 + baro_sample_hgt (sample s) - baro_hgt_offset s - hgt_sensor_offset s)"
    and "R (fst (assemble s)) 5 =
           max (baro_noise (params s)) 0.01 * max (baro_noise (params s)) 0.01"
    and "gate_size (fst (assemble s)) 5 = max (baro_innov_gate (params s)) 1"
  using assms by (simp_all add: assemble_def hgt_obs_def baro_hgt_obs_def Let_def)

lemma assemble_5_gps:
  assumes "fuse_height s" and "\<not> baro_hgt (control_status s)" and "gps_hgt (control_status s)"
  shows "innovation (fst (assemble s)) 5 =
           state s 9 + gps_sample_hgt (sample s) - gps_alt_ref s - hgt_sensor_offset s"
    and "gate_size (fst (assemble s)) 5 = max (baro_innov_gate (params s)) 1"
  using assms by (simp_all add: assemble_def hgt_obs_def gps_hgt_obs_def Let_def)

lemma assemble_5_rng:
  assumes "fuse_height s" and "\<not> baro_hgt (control_status s)"
    and "\<not> gps_hgt (control_status s)" and "rng_hgt (control_status s)"
    and "range_cos_max_tilt (params s) < R_rng_to_earth_2_2 s"
  shows "innovation (fst (assemble s)) 5 =
           state s 9
           - (- max (range_sample_rng (sample s) * R_rng_to_earth_2_2 s)
                  (rng_gnd_clearance (params s)))
           - hgt_sensor_offset s"
  using assms by (simp add: assemble_def hgt_obs_def rng_hgt_obs_def Let_def)

lemma assemble_5_ev:
  assumes "fuse_height s" and "\<not> baro_hgt (control_status s)"
    and "\<not> gps_hgt (control_status s)"
    and "\<not> (rng_hgt (control_status s) \<and> range_cos_max_tilt (params s) < R_rng_to_earth_2_2 s)"
    and "ev_hgt (control_status s)"
  shows "innovation (fst (assemble s)) 5 = state s 9 - ev_sample_posNED2 (sample s)"
  using assms by (auto simp: assemble_def hgt_obs_def ev_hgt_obs_def Let_def)

lemma gnd_effect_compensate_max_min:
  assumes "0 \<le> d"
  shows "gnd_effect_compensate True d = (\<lambda>x. max x 0 + min (x + d) 0)"
  using assms by (auto simp: gnd_effect_compensate_def Let_def fun_eq_iff max_def min_def)

lemma gnd_effect_compensate_continuous:
  assumes "0 \<le> d"
  shows "continuous_on UNIV (gnd_effect_compensate True d)"
  unfolding gnd_effect_compensate_max_min [OF assms]
  by (intro continuous_intros)

lemma first_selected_source_cases:
  "first_selected_source s =
     (if baro_hgt (control_status s) then Some BARO
      else if gps_hgt (control_status s) then Some GPS
      else if rng_hgt (control_status s) \<and> range_cos_max_tilt (params s) < R_rng_to_earth_2_2 s
        then Some RNG
      else if ev_hgt (control_status s) then Some EV
      else None)"
  by (simp add: first_selected_source_def source_selected_def)

section \<open>The gate and the ledger in closed form\<close>

lemma test_ratio_loop:
  "for_loop 0 n (calc_test_ratio l) s =
     s\<lparr>vel_pos_innov_var :=
         (\<lambda>i. if i < n \<and> fuse_map l i then P s (i + 4) (i + 4) + R l i
              else vel_pos_innov_var s i),
       vel_pos_test_ratio :=
         (\<lambda>i. if i < n \<and> fuse_map l i
              then sq (innovation l i) / (sq (gate_size l i) * (P s (i + 4) (i + 4) + R l i))
              else vel_pos_test_ratio s i)\<rparr>"
  (is "_ = ?R n")
proof (rule for_loop_inv [where Inv = "\<lambda>j t. t = ?R j"])
  show "s = ?R 0" by simp
  show "0 \<le> n" by simp
  fix j t
  assume t: "t = ?R j"
  have v: "(\<lambda>i. if i < Suc j \<and> fuse_map l i then P s (i + 4) (i + 4) + R l i
              else vel_pos_innov_var s i) =
           (if fuse_map l j
            then (\<lambda>i. if i < j \<and> fuse_map l i then P s (i + 4) (i + 4) + R l i
                      else vel_pos_innov_var s i)(j := P s (j + 4) (j + 4) + R l j)
            else (\<lambda>i. if i < j \<and> fuse_map l i then P s (i + 4) (i + 4) + R l i
                      else vel_pos_innov_var s i))"
    by (auto simp: fun_eq_iff less_Suc_eq)
  have r: "(\<lambda>i. if i < Suc j \<and> fuse_map l i
              then sq (innovation l i) / (sq (gate_size l i) * (P s (i + 4) (i + 4) + R l i))
              else vel_pos_test_ratio s i) =
           (if fuse_map l j
            then (\<lambda>i. if i < j \<and> fuse_map l i
                      then sq (innovation l i)
                           / (sq (gate_size l i) * (P s (i + 4) (i + 4) + R l i))
                      else vel_pos_test_ratio s i)
                 (j := sq (innovation l j) / (sq (gate_size l j) * (P s (j + 4) (j + 4) + R l j)))
            else (\<lambda>i. if i < j \<and> fuse_map l i
                      then sq (innovation l i)
                           / (sq (gate_size l i) * (P s (i + 4) (i + 4) + R l i))
                      else vel_pos_test_ratio s i))"
    by (auto simp: fun_eq_iff less_Suc_eq)
  show "calc_test_ratio l j t = ?R (Suc j)"
    unfolding v r unfolding t calc_test_ratio_def
    by (simp add: Let_def)
qed

lemma gate_eq:
  "gate s =
     (snd (assemble s))\<lparr>vel_pos_innov_var :=
         (\<lambda>i. if i < 6 \<and> fuse_map (fst (assemble s)) i
              then P s (i + 4) (i + 4) + R (fst (assemble s)) i
              else vel_pos_innov_var s i),
       vel_pos_test_ratio :=
         (\<lambda>i. if i < 6 \<and> fuse_map (fst (assemble s)) i
              then sq (innovation (fst (assemble s)) i)
                   / (sq (gate_size (fst (assemble s)) i)
                      * (P s (i + 4) (i + 4) + R (fst (assemble s)) i))
              else vel_pos_test_ratio s i)\<rparr>"
proof -
  have e: "P (snd (assemble s)) = P s"
    "vel_pos_innov_var (snd (assemble s)) = vel_pos_innov_var s"
    "vel_pos_test_ratio (snd (assemble s)) = vel_pos_test_ratio s"
    by (simp_all add: snd_assemble)
  show ?thesis unfolding gate_def split_beta test_ratio_loop e by (rule refl)
qed

lemma fuse_map_checked: "fuse_map (checked_obs s) = fuse_map (fst (assemble s))"
  by (simp add: checked_obs_def innov_checks_def Let_def)

lemma innovation_checked: "innovation (checked_obs s) = innovation (fst (assemble s))"
  by (simp add: checked_obs_def innov_checks_def Let_def)

lemma R_checked: "R (checked_obs s) = R (fst (assemble s))"
  by (simp add: checked_obs_def innov_checks_def Let_def)

lemma gate_size_checked: "gate_size (checked_obs s) = gate_size (fst (assemble s))"
  by (simp add: checked_obs_def innov_checks_def Let_def)

lemma pass_map_checked:
  "innov_check_pass_map (checked_obs s) i =
     (if i = 0 \<or> i = 1 \<or> i = 2 then vel_check_pass (gate s)
      else if i = 3 \<or> i = 4 then pos_check_pass (gate s)
      else if i = 5 then hgt_check_pass (gate s)
      else False)"
  by (simp add: checked_obs_def innov_checks_def Let_def pass_map_assemble)

lemmas ledger_defs = ledger_def record_vel_fuse_def record_pos_fuse_def record_hgt_fuse_def Let_def

lemma ledger_flags:
  "\<not> fuse_hor_vel (ledger s)" "\<not> fuse_hor_vel_aux (ledger s)" "\<not> fuse_vert_vel (ledger s)"
  "\<not> fuse_pos (ledger s)" "\<not> fuse_height (ledger s)"
  by (simp_all add: ledger_defs)

lemma ledger_keeps:
  "state (ledger s) = state (gate s)" "P (ledger s) = P (gate s)"
  "fault_status (ledger s) = fault_status (gate s)"
  "vel_pos_innov_var (ledger s) = vel_pos_innov_var (gate s)"
  "vel_pos_test_ratio (ledger s) = vel_pos_test_ratio (gate s)"
  "vel_pos_innov (ledger s) = vel_pos_innov (gate s)"
  by (simp_all add: ledger_defs)

lemma gate_keeps:
  "state (gate s) = state s" "P (gate s) = P s" "fault_status (gate s) = fault_status s"
  "fuse_hor_vel (gate s) = fuse_hor_vel s" "fuse_hor_vel_aux (gate s) = fuse_hor_vel_aux s"
  "fuse_vert_vel (gate s) = fuse_vert_vel s" "fuse_pos (gate s) = fuse_pos s"
  "fuse_height (gate s) = fuse_height s" "fuse_hpos_as_odom (gate s) = fuse_hpos_as_odom s"
  "control_status (gate s) = control_status s"
  "innov_check_fail_status (gate s) = innov_check_fail_status s"
  "time_last_imu (gate s) = time_last_imu s"
  "time_last_vel_fuse (gate s) = time_last_vel_fuse s"
  "time_last_pos_fuse (gate s) = time_last_pos_fuse s"
  "time_last_delpos_fuse (gate s) = time_last_delpos_fuse s"
  "time_last_hgt_fuse (gate s) = time_last_hgt_fuse s"
  by (simp_all add: gate_eq snd_assemble)

lemma gate_control: "tilt_align (control_status (gate s)) = tilt_align (control_status s)"
  by (simp add: gate_keeps)

lemma gate_innov: "vel_pos_innov (gate s) = vel_pos_innov (snd (assemble s))"
  by (simp add: gate_eq)

lemma gate_test_ratio:
  "vel_pos_test_ratio (gate s) i =
     (if i < 6 \<and> fuse_map (fst (assemble s)) i
      then sq (innovation (fst (assemble s)) i)
           / (sq (gate_size (fst (assemble s)) i)
              * (P s (i + 4) (i + 4) + R (fst (assemble s)) i))
      else vel_pos_test_ratio s i)"
  by (simp add: gate_eq)

lemma gate_innov_var:
  "vel_pos_innov_var (gate s) i =
     (if i < 6 \<and> fuse_map (fst (assemble s)) i
      then P s (i + 4) (i + 4) + R (fst (assemble s)) i
      else vel_pos_innov_var s i)"
  by (simp add: gate_eq)

lemma ledger_reject_vel:
  "reject_vel_NED (innov_check_fail_status (ledger s)) =
     (if (fuse_hor_vel s \<or> fuse_hor_vel_aux s \<or> fuse_vert_vel s) \<and> vel_check_pass (gate s)
      then False
      else if \<not> vel_check_pass (gate s) then True
      else reject_vel_NED (innov_check_fail_status s))"
  by (simp add: ledger_defs gate_keeps)

lemma ledger_time_vel:
  "time_last_vel_fuse (ledger s) =
     (if (fuse_hor_vel s \<or> fuse_hor_vel_aux s \<or> fuse_vert_vel s) \<and> vel_check_pass (gate s)
      then time_last_imu s else time_last_vel_fuse s)"
  by (simp add: ledger_defs gate_keeps)

lemma ledger_reject_pos:
  "reject_pos_NE (innov_check_fail_status (ledger s)) =
     (if pos_check_pass (gate s) \<and> fuse_pos s then False
      else if \<not> pos_check_pass (gate s) then True
      else reject_pos_NE (innov_check_fail_status s))"
  by (simp add: ledger_defs gate_keeps)

lemma ledger_time_pos:
  "time_last_pos_fuse (ledger s) =
     (if pos_check_pass (gate s) \<and> fuse_pos s \<and> \<not> fuse_hpos_as_odom s
      then time_last_imu s else time_last_pos_fuse s)"
  by (simp add: ledger_defs gate_keeps)

lemma ledger_time_delpos:
  "time_last_delpos_fuse (ledger s) =
     (if pos_check_pass (gate s) \<and> fuse_pos s \<and> fuse_hpos_as_odom s
      then time_last_imu s else time_last_delpos_fuse s)"
  by (simp add: ledger_defs gate_keeps)

lemma ledger_reject_hgt:
  "reject_pos_D (innov_check_fail_status (ledger s)) =
     (if hgt_check_pass (gate s) \<and> fuse_height s then False
      else if \<not> hgt_check_pass (gate s) then True
      else reject_pos_D (innov_check_fail_status s))"
  by (simp add: ledger_defs gate_keeps pass_map_checked)

lemma ledger_time_hgt:
  "time_last_hgt_fuse (ledger s) =
     (if hgt_check_pass (gate s) \<and> fuse_height s
      then time_last_imu s else time_last_hgt_fuse s)"
  by (simp add: ledger_defs gate_keeps pass_map_checked)

lemma routine_keeps:
  "innov_check_fail_status (fuseVelPosHeight fc fu s) = innov_check_fail_status (ledger s)"
  "time_last_vel_fuse (fuseVelPosHeight fc fu s) = time_last_vel_fuse (ledger s)"
  "time_last_pos_fuse (fuseVelPosHeight fc fu s) = time_last_pos_fuse (ledger s)"
  "time_last_delpos_fuse (fuseVelPosHeight fc fu s) = time_last_delpos_fuse (ledger s)"
  "time_last_hgt_fuse (fuseVelPosHeight fc fu s) = time_last_hgt_fuse (ledger s)"
  "vel_pos_innov_var (fuseVelPosHeight fc fu s) = vel_pos_innov_var (gate s)"
  "vel_pos_test_ratio (fuseVelPosHeight fc fu s) = vel_pos_test_ratio (gate s)"
  "vel_pos_innov (fuseVelPosHeight fc fu s) = vel_pos_innov (gate s)"
  using updater_frameD [OF routine_frame [of s fc fu]] by (simp_all add: ledger_keeps)

text \<open>What the ledger does under a height request when no branch of the height chain
  is taken: slot 5 is inactive, and the stored test ratio alone decides.\<close>

lemma height_ledger_without_source:
  assumes "fuse_height s" and "\<not> hgt_source_ready s"
  shows "\<not> fuse_map (checked_obs s) 5"
    and "time_last_hgt_fuse (fuseVelPosHeight fc fu s) =
           (if hgt_check_pass s then time_last_imu s else time_last_hgt_fuse s)"
    and "reject_pos_D (innov_check_fail_status (fuseVelPosHeight fc fu s)) = (\<not> hgt_check_pass s)"
proof -
  show "\<not> fuse_map (checked_obs s) 5"
    using assms(2) by (simp add: fuse_map_checked fuse_map_assemble)
  have same: "hgt_check_pass (gate s) = hgt_check_pass s"
    using assms(2) by (simp add: hgt_check_pass_def gate_test_ratio fuse_map_assemble gate_control)
  show "time_last_hgt_fuse (fuseVelPosHeight fc fu s) =
      (if hgt_check_pass s then time_last_imu s else time_last_hgt_fuse s)"
    using assms(1) by (simp add: routine_keeps ledger_time_hgt same)
  show "reject_pos_D (innov_check_fail_status (fuseVelPosHeight fc fu s)) = (\<not> hgt_check_pass s)"
    using assms(1) by (simp add: routine_keeps ledger_reject_hgt same)
qed

section \<open>The example filters at the gate\<close>

lemmas hor_vel_tick_stale_fields =
  hor_vel_tick_stale_def filter_at_rest_def

lemmas tilted_range_tick_fields = tilted_range_tick_def filter_at_rest_def

lemmas degenerate_tick_fields = degenerate_tick_def filter_at_rest_def

lemma degenerate_tick_gate:
  "fuse_map (checked_obs degenerate_tick) =
     (\<lambda>i. i = 2)"
  "innov_check_pass_map (checked_obs degenerate_tick) 2"
  "P (ledger degenerate_tick) = P degenerate_tick"
  "vel_pos_innov_var (ledger degenerate_tick) 2 = 13 / 4"
proof -
  have f: "\<not> fuse_hor_vel degenerate_tick" "\<not> fuse_hor_vel_aux degenerate_tick"
    "fuse_vert_vel degenerate_tick" "\<not> fuse_pos degenerate_tick"
    "\<not> fuse_height degenerate_tick"
    "vel_pos_innov degenerate_tick = (\<lambda>_. 0)" "vel_pos_test_ratio degenerate_tick = (\<lambda>_. 0)"
    "gps_vel_noise (params degenerate_tick) = 1"
    "gps_sample_sacc (sample degenerate_tick) = 0"
    "P degenerate_tick 6 6 = 1"
    by (simp_all add: degenerate_tick_fields)
  show "fuse_map (checked_obs degenerate_tick) = (\<lambda>i. i = 2)"
    using f by (auto simp: fuse_map_checked fuse_map_assemble fun_eq_iff)
  have r: "vel_pos_test_ratio (gate degenerate_tick) i = 0" for i
    using f by (simp add: gate_test_ratio fuse_map_assemble assemble_below_5 sq_def)
  show "innov_check_pass_map (checked_obs degenerate_tick) 2"
    by (simp add: pass_map_checked vel_check_pass_def r)
  show "P (ledger degenerate_tick) = P degenerate_tick"
    by (simp add: ledger_keeps gate_keeps)
  show "vel_pos_innov_var (ledger degenerate_tick) 2 = 13 / 4"
    using f
    by (simp add: ledger_keeps gate_innov_var fuse_map_assemble assemble_below_5 R_vel_pos_obs)
qed

lemmas degenerate_height_tick_fields = degenerate_height_tick_def degenerate_tick_fields

lemma degenerate_height_tick_gate:
  "fuse_map (checked_obs degenerate_height_tick) = (\<lambda>i. i = 2 \<or> i = 5)"
  "innov_check_pass_map (checked_obs degenerate_height_tick) 2"
  "innov_check_pass_map (checked_obs degenerate_height_tick) 5"
  "innovation (checked_obs degenerate_height_tick) 5 = 1"
  "P (ledger degenerate_height_tick) = P degenerate_height_tick"
  "state (ledger degenerate_height_tick) = (\<lambda>_. 0)"
  "vel_pos_innov_var (ledger degenerate_height_tick) 2 = 13 / 4"
  "vel_pos_innov_var (ledger degenerate_height_tick) 5 = 2"
proof -
  let ?s = degenerate_height_tick
  have f: "\<not> fuse_hor_vel ?s" "\<not> fuse_hor_vel_aux ?s" "fuse_vert_vel ?s" "\<not> fuse_pos ?s"
    "fuse_height ?s" "baro_hgt (control_status ?s)" "\<not> gnd_effect (control_status ?s)"
    "vel_pos_innov ?s = (\<lambda>_. 0)" "vel_pos_test_ratio ?s = (\<lambda>_. 0)"
    "gps_vel_noise (params ?s) = 1" "gps_sample_sacc (sample ?s) = 0"
    "baro_noise (params ?s) = 1" "baro_innov_gate (params ?s) = 5"
    "baro_sample_hgt (sample ?s) = 1" "baro_hgt_offset ?s = 0" "hgt_sensor_offset ?s = 0"
    "state ?s = (\<lambda>_. 0)" "P ?s 6 6 = 1" "P ?s 9 9 = 1"
    by (simp_all add: degenerate_height_tick_fields)
  have ready: "hgt_source_ready ?s" using f by (simp add: hgt_source_ready_def)
  show "fuse_map (checked_obs ?s) = (\<lambda>i. i = 2 \<or> i = 5)"
    using f ready by (auto simp: fuse_map_checked fuse_map_assemble fun_eq_iff)
  have i5: "innovation (fst (assemble ?s)) 5 = 1"
    using f by (simp add: assemble_5_baro gnd_effect_compensate_def)
  have r: "vel_pos_test_ratio (gate ?s) i \<le> 1" for i
    using f ready i5
    by (simp add: gate_test_ratio fuse_map_assemble assemble_below_5 assemble_5_baro sq_def)
  show "innov_check_pass_map (checked_obs ?s) 2"
    by (simp add: pass_map_checked vel_check_pass_def r)
  show "innov_check_pass_map (checked_obs ?s) 5"
    by (simp add: pass_map_checked hgt_check_pass_def r)
  show "innovation (checked_obs ?s) 5 = 1" by (simp add: innovation_checked i5)
  show "P (ledger ?s) = P ?s" by (simp add: ledger_keeps gate_keeps)
  show "state (ledger ?s) = (\<lambda>_. 0)" using f by (simp add: ledger_keeps gate_keeps)
  show "vel_pos_innov_var (ledger ?s) 2 = 13 / 4"
    using f
    by (simp add: ledger_keeps gate_innov_var fuse_map_assemble assemble_below_5 R_vel_pos_obs)
  show "vel_pos_innov_var (ledger ?s) 5 = 2"
    using f ready
    by (simp add: ledger_keeps gate_innov_var fuse_map_assemble assemble_5_baro)
qed

lemmas correlated_vel_tick_fields = correlated_vel_tick_def filter_at_rest_def

lemma correlated_vel_tick_gate:
  "fuse_map (checked_obs correlated_vel_tick) = (\<lambda>i. i = 0 \<or> i = 1)"
  "innov_check_pass_map (checked_obs correlated_vel_tick) 0"
  "R (checked_obs correlated_vel_tick) 1 = 1"
  "P (ledger correlated_vel_tick) = P correlated_vel_tick"
  "vel_pos_innov_var (ledger correlated_vel_tick) 0 = 2"
  "vel_pos_innov_var (ledger correlated_vel_tick) 1 = 2"
proof -
  let ?s = correlated_vel_tick
  have f: "fuse_hor_vel ?s" "\<not> fuse_hor_vel_aux ?s" "\<not> fuse_vert_vel ?s" "\<not> fuse_pos ?s"
    "\<not> fuse_height ?s" "vel_pos_innov ?s = (\<lambda>_. 0)" "vel_pos_test_ratio ?s = (\<lambda>_. 0)"
    "velObsVarNE ?s = (\<lambda>_. 1)" "P ?s 4 4 = 1" "P ?s 5 5 = 1"
    by (simp_all add: correlated_vel_tick_fields)
  show "fuse_map (checked_obs ?s) = (\<lambda>i. i = 0 \<or> i = 1)"
    using f by (auto simp: fuse_map_checked fuse_map_assemble fun_eq_iff)
  have r: "vel_pos_test_ratio (gate ?s) i = 0" for i
    using f by (simp add: gate_test_ratio fuse_map_assemble assemble_below_5 sq_def)
  show "innov_check_pass_map (checked_obs ?s) 0"
    by (simp add: pass_map_checked vel_check_pass_def r)
  show "R (checked_obs ?s) 1 = 1"
    using f by (simp add: R_checked assemble_below_5 R_vel_pos_obs)
  show "P (ledger ?s) = P ?s" by (simp add: ledger_keeps gate_keeps)
  show "vel_pos_innov_var (ledger ?s) 0 = 2" "vel_pos_innov_var (ledger ?s) 1 = 2"
    using f
    by (simp_all add: ledger_keeps gate_innov_var fuse_map_assemble assemble_below_5
        R_vel_pos_obs)
qed

section \<open>The velocity group\<close>

text \<open>Claim C1, as amended. Slots 0 and 1 are active exactly under a horizontal velocity
  request and slot 2 exactly under a vertical one. The stored test ratio of an active slot
  is the one computed this tick; that of an inactive slot is the value left by an earlier
  tick. The group passes if and only if all three stored ratios are at most 1, the decision
  is written to all of \<open>pass[0..2]\<close>, and it drives the ledger: on a pass under a velocity
  request the reject flag is cleared and the time stamped, on a failure the reject flag is
  set and the time stamp kept. So the stored ratio of an inactive slot does take part in the
  decision.\<close>

theorem velocity_group_uses_stored_ratios:
  "fuse_map (checked_obs s) 0 = (fuse_hor_vel s \<or> fuse_hor_vel_aux s)
   \<and> fuse_map (checked_obs s) 1 = (fuse_hor_vel s \<or> fuse_hor_vel_aux s)
   \<and> fuse_map (checked_obs s) 2 = fuse_vert_vel s
   \<and> (\<forall>i\<in>{0, 1, 2}.
        vel_pos_test_ratio (fuseVelPosHeight fc fu s) i =
          (if fuse_map (checked_obs s) i
           then sq (innovation (checked_obs s) i)
                / (sq (gate_size (checked_obs s) i) * (P s (i + 4) (i + 4) + R (checked_obs s) i))
           else vel_pos_test_ratio s i))
   \<and> (\<forall>i\<in>{0, 1, 2}.
        innov_check_pass_map (checked_obs s) i =
          (vel_pos_test_ratio (fuseVelPosHeight fc fu s) 0 \<le> 1
           \<and> vel_pos_test_ratio (fuseVelPosHeight fc fu s) 1 \<le> 1
           \<and> vel_pos_test_ratio (fuseVelPosHeight fc fu s) 2 \<le> 1))
   \<and> (innov_check_pass_map (checked_obs s) 0
        \<and> (fuse_hor_vel s \<or> fuse_hor_vel_aux s \<or> fuse_vert_vel s)
      \<longrightarrow> \<not> reject_vel_NED (innov_check_fail_status (fuseVelPosHeight fc fu s))
          \<and> time_last_vel_fuse (fuseVelPosHeight fc fu s) = time_last_imu s)
   \<and> (\<not> innov_check_pass_map (checked_obs s) 0
      \<longrightarrow> reject_vel_NED (innov_check_fail_status (fuseVelPosHeight fc fu s))
          \<and> time_last_vel_fuse (fuseVelPosHeight fc fu s) = time_last_vel_fuse s)"
  by (simp add: fuse_map_checked fuse_map_assemble pass_map_checked routine_keeps
      gate_test_ratio innovation_checked R_checked gate_size_checked vel_check_pass_def
      ledger_reject_vel ledger_time_vel)

theorem velocity_group_uses_stored_ratios_witness:
  "fuse_map (checked_obs hor_vel_tick_stale) 0 \<and> fuse_map (checked_obs hor_vel_tick_stale) 1
   \<and> \<not> fuse_map (checked_obs hor_vel_tick_stale) 2
   \<and> vel_pos_test_ratio (fuseVelPosHeight fixCovarianceErrors_spec fuse_spec hor_vel_tick_stale) 2
       = 2
   \<and> \<not> innov_check_pass_map (checked_obs hor_vel_tick_stale) 0
   \<and> reject_vel_NED (innov_check_fail_status
        (fuseVelPosHeight fixCovarianceErrors_spec fuse_spec hor_vel_tick_stale))
   \<and> time_last_vel_fuse (fuseVelPosHeight fixCovarianceErrors_spec fuse_spec hor_vel_tick_stale)
       = 3"
proof -
  have f: "fuse_hor_vel hor_vel_tick_stale" "\<not> fuse_vert_vel hor_vel_tick_stale"
    "vel_pos_test_ratio hor_vel_tick_stale 2 = 2" "time_last_vel_fuse hor_vel_tick_stale = 3"
    by (simp_all add: hor_vel_tick_stale_fields)
  show ?thesis
    using velocity_group_uses_stored_ratios
      [of hor_vel_tick_stale fixCovarianceErrors_spec fuse_spec] f
    by simp
qed

text \<open>Claim C1 as stated fails. Under a horizontal velocity request alone, with both active
  slots at test ratio 0, a stored ratio of 2 in the inactive slot 2 makes the group fail:
  the reject flag is set and the time stamp stays at 3. With that one stored ratio set to
  0, and nothing else changed, the group passes and the time is stamped 7.\<close>

theorem velocity_group_active_only_counterexample:
  "fuse_map (checked_obs hor_vel_tick_stale) 0 \<and> fuse_map (checked_obs hor_vel_tick_stale) 1
   \<and> \<not> fuse_map (checked_obs hor_vel_tick_stale) 2
   \<and> vel_pos_test_ratio (fuseVelPosHeight fixCovarianceErrors_spec fuse_spec hor_vel_tick_stale) 0
       \<le> 1
   \<and> vel_pos_test_ratio (fuseVelPosHeight fixCovarianceErrors_spec fuse_spec hor_vel_tick_stale) 1
       \<le> 1
   \<and> \<not> innov_check_pass_map (checked_obs hor_vel_tick_stale) 0
   \<and> \<not> innov_check_pass_map (checked_obs hor_vel_tick_stale) 1
   \<and> reject_vel_NED (innov_check_fail_status
        (fuseVelPosHeight fixCovarianceErrors_spec fuse_spec hor_vel_tick_stale))
   \<and> time_last_imu hor_vel_tick_stale = 7
   \<and> time_last_vel_fuse (fuseVelPosHeight fixCovarianceErrors_spec fuse_spec hor_vel_tick_stale)
       = 3
   \<and> \<not> fuse_map (checked_obs hor_vel_tick_fresh) 2
   \<and> innov_check_pass_map (checked_obs hor_vel_tick_fresh) 0
   \<and> innov_check_pass_map (checked_obs hor_vel_tick_fresh) 1
   \<and> \<not> reject_vel_NED (innov_check_fail_status
        (fuseVelPosHeight fixCovarianceErrors_spec fuse_spec hor_vel_tick_fresh))
   \<and> time_last_vel_fuse (fuseVelPosHeight fixCovarianceErrors_spec fuse_spec hor_vel_tick_fresh)
       = 7"
proof -
  have a: "fuse_hor_vel hor_vel_tick_stale" "\<not> fuse_hor_vel_aux hor_vel_tick_stale"
    "\<not> fuse_vert_vel hor_vel_tick_stale"
    "vel_pos_innov hor_vel_tick_stale = (\<lambda>_. 0)"
    "vel_pos_test_ratio hor_vel_tick_stale 2 = 2"
    "time_last_imu hor_vel_tick_stale = 7" "time_last_vel_fuse hor_vel_tick_stale = 3"
    by (simp_all add: hor_vel_tick_stale_fields)
  have b: "fuse_hor_vel hor_vel_tick_fresh" "\<not> fuse_hor_vel_aux hor_vel_tick_fresh"
    "\<not> fuse_vert_vel hor_vel_tick_fresh"
    "vel_pos_innov hor_vel_tick_fresh = (\<lambda>_. 0)"
    "vel_pos_test_ratio hor_vel_tick_fresh 2 = 0"
    "time_last_imu hor_vel_tick_fresh = 7"
    by (simp_all add: hor_vel_tick_fresh_def hor_vel_tick_stale_fields)
  have ra: "vel_pos_test_ratio (gate hor_vel_tick_stale) 0 = 0"
    "vel_pos_test_ratio (gate hor_vel_tick_stale) 1 = 0"
    "vel_pos_test_ratio (gate hor_vel_tick_stale) 2 = 2"
    using a by (simp_all add: gate_test_ratio fuse_map_assemble assemble_below_5 sq_def)
  have rb: "vel_pos_test_ratio (gate hor_vel_tick_fresh) 0 = 0"
    "vel_pos_test_ratio (gate hor_vel_tick_fresh) 1 = 0"
    "vel_pos_test_ratio (gate hor_vel_tick_fresh) 2 = 0"
    using b by (simp_all add: gate_test_ratio fuse_map_assemble assemble_below_5 sq_def)
  show ?thesis
    using a b ra rb
    by (simp add: fuse_map_checked fuse_map_assemble pass_map_checked routine_keeps
        vel_check_pass_def ledger_reject_vel ledger_time_vel)
qed

section \<open>A height request without a height source\<close>

text \<open>Claim C2 fails on the code. On scenario S4 of the spec (a height request, the range
  finder the only source and tilted beyond the limit) slot 5 stays inactive and nothing is
  fused: the state vector and the covariance are returned as they came. Yet with a stored
  height test ratio of 0 the ledger of lines 237--239 stamps \<open>time_last_hgt_fuse\<close> with the
  IMU time (3 becomes 7) and clears the reject flag that was set on entry. Lemma
  \<open>height_ledger_without_source\<close> gives the general fact: without a source the stored test
  ratio alone decides what the height ledger writes.\<close>

theorem height_time_stamped_without_source:
  "fuse_height tilted_range_tick
   \<and> \<not> baro_hgt (control_status tilted_range_tick)
   \<and> \<not> gps_hgt (control_status tilted_range_tick)
   \<and> \<not> ev_hgt (control_status tilted_range_tick)
   \<and> rng_hgt (control_status tilted_range_tick)
   \<and> R_rng_to_earth_2_2 tilted_range_tick \<le> range_cos_max_tilt (params tilted_range_tick)
   \<and> \<not> fuse_map (checked_obs tilted_range_tick) 5
   \<and> state (fuseVelPosHeight fixCovarianceErrors_spec fuse_spec tilted_range_tick)
       = state tilted_range_tick
   \<and> P (fuseVelPosHeight fixCovarianceErrors_spec fuse_spec tilted_range_tick)
       = P tilted_range_tick
   \<and> time_last_imu tilted_range_tick = 7
   \<and> time_last_hgt_fuse tilted_range_tick = 3
   \<and> time_last_hgt_fuse (fuseVelPosHeight fixCovarianceErrors_spec fuse_spec tilted_range_tick)
       = 7
   \<and> reject_pos_D (innov_check_fail_status tilted_range_tick)
   \<and> \<not> reject_pos_D (innov_check_fail_status
        (fuseVelPosHeight fixCovarianceErrors_spec fuse_spec tilted_range_tick))"
proof -
  have h: "fuse_height tilted_range_tick"
    "\<not> fuse_hor_vel tilted_range_tick" "\<not> fuse_hor_vel_aux tilted_range_tick"
    "\<not> fuse_vert_vel tilted_range_tick" "\<not> fuse_pos tilted_range_tick"
    "\<not> baro_hgt (control_status tilted_range_tick)"
    "\<not> gps_hgt (control_status tilted_range_tick)"
    "\<not> ev_hgt (control_status tilted_range_tick)"
    "rng_hgt (control_status tilted_range_tick)"
    "R_rng_to_earth_2_2 tilted_range_tick \<le> range_cos_max_tilt (params tilted_range_tick)"
    "tilt_align (control_status tilted_range_tick)"
    "vel_pos_test_ratio tilted_range_tick 5 = 0"
    "time_last_hgt_fuse tilted_range_tick = 3" "time_last_imu tilted_range_tick = 7"
    "reject_pos_D (innov_check_fail_status tilted_range_tick)"
    by (simp_all add: tilted_range_tick_fields)
  have nr: "\<not> hgt_source_ready tilted_range_tick"
    using h by (simp add: hgt_source_ready_def)
  have idle: "\<not> fuse_map (checked_obs tilted_range_tick) k" for k
    using h nr by (simp add: fuse_map_checked fuse_map_assemble)
  have run: "fuseVelPosHeight fixCovarianceErrors_spec fuse_spec tilted_range_tick
      = ledger tilted_range_tick"
    unfolding fuseVelPosHeight_def by (rule updater_idle) (rule idle)
  have pass: "hgt_check_pass (gate tilted_range_tick)"
    using h nr by (simp add: hgt_check_pass_def gate_test_ratio fuse_map_assemble)
  show ?thesis
    using h nr pass idle
    by (simp add: run ledger_keeps gate_keeps ledger_reject_hgt ledger_time_hgt)
qed

section \<open>The fault flag after the scan of the diagonal\<close>

text \<open>Claim C3 fails on the code. In the vertical velocity slot of the example, index 0
  fails the guard (\<open>0.1 < 4/13\<close>), so row 0 of the covariance is zeroed and the slot is
  abandoned; yet \<open>bad_vel_D\<close> is false on return, because every later index that passes
  runs the clearing branch of lines 302--321. Lemma \<open>bad_flag_after_slot\<close> gives the general
  fact: after a fused slot the flag tells whether index 23 failed.\<close>

theorem fault_flag_cleared_after_failure:
  "fuse_map (checked_obs degenerate_tick) 2
   \<and> innov_check_pass_map (checked_obs degenerate_tick) 2
   \<and> P (ledger degenerate_tick) 0 0 < KHP_of (ledger degenerate_tick) 2 0 0
   \<and> P degenerate_tick 0 6 = 1
   \<and> P (fuseVelPosHeight fixCovarianceErrors_spec fuse_spec degenerate_tick) 0 6 = 0
   \<and> \<not> bad_vel_D (fault_status
        (fuseVelPosHeight fixCovarianceErrors_spec fuse_spec degenerate_tick))"
proof -
  let ?l = "checked_obs degenerate_tick"
  let ?t = "ledger degenerate_tick"
  let ?body = "fuse_obs fixCovarianceErrors_spec fuse_spec ?l"
  have act: "fuse_map ?l 2" "innov_check_pass_map ?l 2"
    by (simp_all add: degenerate_tick_gate)
  have pre: "for_loop 0 2 ?body ?t = ?t"
    by (rule updater_prefix_idle) (simp add: degenerate_tick_gate)
  have post: "for_loop 3 6 ?body u = u" for u
    by (rule updater_range_idle) (simp add: degenerate_tick_gate)
  have run: "fuseVelPosHeight fixCovarianceErrors_spec fuse_spec degenerate_tick = ?body 2 ?t"
    unfolding fuseVelPosHeight_def
    using updater_resume [of 2 6 ?body ?t] by (simp add: pre post)
  have k00: "KHP_of ?t 2 0 0 = 4 / 13"
    by (simp add: KHP_of_eq degenerate_tick_gate) (simp add: degenerate_tick_fields)
  have p00: "P ?t 0 0 = 1 / 10"
    by (simp add: degenerate_tick_gate) (simp add: degenerate_tick_fields)
  have fail0: "guard_fails (P ?t) (KHP_of ?t 2) 0"
    by (simp add: guard_fails_def k00 p00)
  have pass23: "\<not> guard_fails (P ?t) (KHP_of ?t 2) 23"
    by (simp add: guard_fails_def KHP_of_eq degenerate_tick_gate)
      (simp add: degenerate_tick_fields)
  have flag: "get_bad 2 (fault_status (?body 2 ?t)) = False"
    using bad_flag_after_slot
      [OF _ act, where t = ?t and fc = fixCovarianceErrors_spec and fu = fuse_spec] pass23
    by simp
  have zero: "P (?body 2 ?t) 0 6 = 0"
    by (simp add: fuse_obs_unhealthy [OF act _ fail0] fail0)
  have "P degenerate_tick 0 6 = 1" by (simp add: degenerate_tick_fields)
  then show ?thesis
    using act k00 p00 flag zero by (simp add: run get_bad_def)
qed

section \<open>A slot that fails the variance guard\<close>

text \<open>Claim C4. Let \<open>t\<close> be the filter when the update loop reaches an active, accepted slot
  \<open>k\<close>, and let some diagonal index fail the guard of line 274 there. Then the slot leaves
  the state vector as it is and applies no decrement: its covariance is that of \<open>t\<close> with
  exactly the rows and columns of the failing indices zeroed. The loop goes on: the routine
  returns what slots \<open>k + 1 \<dots> 5\<close> make of the filter this slot leaves. The last conjunct
  gives the decrement matrix in closed form.\<close>

theorem unhealthy_slot_abandoned:
  assumes "k < 6"
    and "fuse_map (checked_obs s) k" and "innov_check_pass_map (checked_obs s) k"
    and "t = for_loop 0 k (fuse_obs fc fu (checked_obs s)) (ledger s)"
    and "i < 24" and "P t i i < KHP_of t k i i"
  shows "state (fuse_obs fc fu (checked_obs s) k t) = state t
    \<and> P (fuse_obs fc fu (checked_obs s) k t) =
        (\<lambda>r c. if (r < 24 \<and> P t r r < KHP_of t k r r) \<or> (c < 24 \<and> P t c c < KHP_of t k c c)
               then 0 else P t r c)
    \<and> fuseVelPosHeight fc fu s =
        for_loop (Suc k) 6 (fuse_obs fc fu (checked_obs s)) (fuse_obs fc fu (checked_obs s) k t)
    \<and> KHP_of t k =
        (\<lambda>r c. if r < 24 \<and> c < 24
               then P t r (k + 4) / vel_pos_innov_var t k * P t (k + 4) c else 0)"
proof -
  have g: "guard_fails (P t) (KHP_of t k) i" using assms(6) by (simp add: guard_fails_def)
  have step: "fuse_obs fc fu (checked_obs s) k t =
      t\<lparr>P := (\<lambda>r c. if (r < 24 \<and> guard_fails (P t) (KHP_of t k) r)
                        \<or> (c < 24 \<and> guard_fails (P t) (KHP_of t k) c) then 0 else P t r c),
        fault_status := set_bad k (guard_fails (P t) (KHP_of t k) 23) (fault_status t)\<rparr>"
    by (rule fuse_obs_unhealthy [OF assms(2,3,5) g])
  have x: "state (fuse_obs fc fu (checked_obs s) k t) = state t"
    unfolding step by simp
  have c: "P (fuse_obs fc fu (checked_obs s) k t) =
        (\<lambda>r c. if (r < 24 \<and> P t r r < KHP_of t k r r) \<or> (c < 24 \<and> P t c c < KHP_of t k c c)
               then 0 else P t r c)"
    unfolding step by (simp add: guard_fails_def)
  have r: "fuseVelPosHeight fc fu s =
        for_loop (Suc k) 6 (fuse_obs fc fu (checked_obs s)) (fuse_obs fc fu (checked_obs s) k t)"
    unfolding fuseVelPosHeight_def assms(4) by (rule updater_resume [OF assms(1)])
  show ?thesis using x c r KHP_of_eq [of t k] by simp
qed

theorem unhealthy_slot_abandoned_witness:
  "fuse_map (checked_obs degenerate_height_tick) 2
   \<and> innov_check_pass_map (checked_obs degenerate_height_tick) 2
   \<and> P (ledger degenerate_height_tick) 0 0 < KHP_of (ledger degenerate_height_tick) 2 0 0
   \<and> state (fuse_obs fixCovarianceErrors_spec fuse_spec (checked_obs degenerate_height_tick) 2
        (ledger degenerate_height_tick)) = state (ledger degenerate_height_tick)
   \<and> P (ledger degenerate_height_tick) 0 6 = 1
   \<and> P (fuse_obs fixCovarianceErrors_spec fuse_spec (checked_obs degenerate_height_tick) 2
        (ledger degenerate_height_tick)) 0 6 = 0
   \<and> P (fuse_obs fixCovarianceErrors_spec fuse_spec (checked_obs degenerate_height_tick) 2
        (ledger degenerate_height_tick)) 6 6 = 1
   \<and> state (ledger degenerate_height_tick) 9 = 0
   \<and> state (fuseVelPosHeight fixCovarianceErrors_spec fuse_spec degenerate_height_tick) 9 = 1 / 2"
proof -
  let ?l = "checked_obs degenerate_height_tick"
  let ?t = "ledger degenerate_height_tick"
  let ?body = "fuse_obs fixCovarianceErrors_spec fuse_spec ?l"
  have act: "fuse_map ?l 2" "innov_check_pass_map ?l 2"
    by (simp_all add: degenerate_height_tick_gate)
  have act5: "fuse_map ?l 5" "innov_check_pass_map ?l 5"
    by (simp_all add: degenerate_height_tick_gate)
  have pre: "for_loop 0 2 ?body ?t = ?t"
    by (rule updater_prefix_idle) (simp add: degenerate_height_tick_gate)
  have tdef: "?t = for_loop 0 2 ?body ?t" using pre by simp
  have k00: "KHP_of ?t 2 0 0 = 4 / 13"
    by (simp add: KHP_of_eq degenerate_height_tick_gate)
      (simp add: degenerate_height_tick_fields)
  have p00: "P ?t 0 0 = 1 / 10" "P ?t 0 6 = 1" "P ?t 6 6 = 1"
    by (simp_all add: degenerate_height_tick_gate) (simp_all add: degenerate_height_tick_fields)
  have fail0: "P ?t 0 0 < KHP_of ?t 2 0 0" by (simp add: k00 p00)
  note main = unhealthy_slot_abandoned [OF _ act tdef _ fail0]
  have x: "state (?body 2 ?t) = state ?t" using main by simp
  have c: "P (?body 2 ?t) =
      (\<lambda>r c. if (r < 24 \<and> P ?t r r < KHP_of ?t 2 r r) \<or> (c < 24 \<and> P ?t c c < KHP_of ?t 2 c c)
             then 0 else P ?t r c)"
    using main by simp
  have only0: "(i < 24 \<and> P ?t i i < KHP_of ?t 2 i i) = (i = 0)" for i
    by (simp add: KHP_of_eq degenerate_height_tick_gate)
      (auto simp: degenerate_height_tick_fields)
  have c': "P (?body 2 ?t) = (\<lambda>r c. if r = 0 \<or> c = 0 then 0 else P degenerate_height_tick r c)"
    unfolding c only0 unfolding degenerate_height_tick_gate(5) by (rule refl)
  have mid: "for_loop 3 5 ?body u = u" for u
    by (rule updater_range_idle) (simp add: degenerate_height_tick_gate)
  have run: "fuseVelPosHeight fixCovarianceErrors_spec fuse_spec degenerate_height_tick
      = ?body 5 (?body 2 ?t)"
  proof -
    have "fuseVelPosHeight fixCovarianceErrors_spec fuse_spec degenerate_height_tick
        = for_loop 3 6 ?body (?body 2 ?t)"
      using main by simp
    also have "\<dots> = ?body 5 (for_loop 3 5 ?body (?body 2 ?t))"
      using for_loop_last [of 3 5 ?body "?body 2 ?t"] by simp
    finally show ?thesis by (simp add: mid)
  qed
  let ?u = "?body 2 ?t"
  have uf: "vel_pos_innov_var ?u = vel_pos_innov_var ?t"
    using updater_frameD(11) [OF fuse_obs_frame] .
  have ux: "state ?u 9 = 0" using x by (simp add: degenerate_height_tick_gate)
  have healthy5: "\<forall>i<24. \<not> guard_fails (P ?u) (KHP_of ?u 5) i"
    unfolding guard_fails_def KHP_of_eq uf c' unfolding degenerate_height_tick_gate(8)
    by (auto simp: degenerate_height_tick_fields)
  have k9: "calc_Kfusion ?u 5 (5 + 4) 9 = 1 / 2"
    unfolding calc_Kfusion_eq uf c' unfolding degenerate_height_tick_gate(8)
    by (simp add: degenerate_height_tick_fields)
  have fin: "state (?body 5 ?u) 9 = 1 / 2"
    unfolding fuse_obs_healthy [OF act5 healthy5]
    using k9 ux by (simp add: Let_def fuse_spec_def degenerate_height_tick_gate)
  show ?thesis
    using act fail0 x p00 c' fin by (simp add: run degenerate_height_tick_gate)
qed

section \<open>A tick without a request\<close>

text \<open>Claim C5. If all five request flags are false on entry, the state vector and the
  covariance are unchanged on exit and none of the four fusion time stamps is written.\<close>

theorem no_request_no_change:
  assumes "\<not> fuse_hor_vel s" and "\<not> fuse_hor_vel_aux s" and "\<not> fuse_vert_vel s"
    and "\<not> fuse_pos s" and "\<not> fuse_height s"
  shows "state (fuseVelPosHeight fc fu s) = state s
    \<and> P (fuseVelPosHeight fc fu s) = P s
    \<and> time_last_vel_fuse (fuseVelPosHeight fc fu s) = time_last_vel_fuse s
    \<and> time_last_pos_fuse (fuseVelPosHeight fc fu s) = time_last_pos_fuse s
    \<and> time_last_delpos_fuse (fuseVelPosHeight fc fu s) = time_last_delpos_fuse s
    \<and> time_last_hgt_fuse (fuseVelPosHeight fc fu s) = time_last_hgt_fuse s"
proof -
  have idle: "\<not> fuse_map (checked_obs s) k" for k
    using assms by (simp add: fuse_map_checked fuse_map_assemble)
  have run: "fuseVelPosHeight fc fu s = ledger s"
    unfolding fuseVelPosHeight_def by (rule updater_idle) (rule idle)
  show ?thesis
    using assms
    by (simp add: run ledger_keeps gate_keeps ledger_time_vel ledger_time_pos
        ledger_time_delpos ledger_time_hgt)
qed

theorem no_request_no_change_witness:
  "\<not> fuse_hor_vel filter_at_rest \<and> \<not> fuse_hor_vel_aux filter_at_rest
   \<and> \<not> fuse_vert_vel filter_at_rest \<and> \<not> fuse_pos filter_at_rest
   \<and> \<not> fuse_height filter_at_rest
   \<and> state (fuseVelPosHeight fixCovarianceErrors_spec fuse_spec filter_at_rest)
       = state filter_at_rest
   \<and> P (fuseVelPosHeight fixCovarianceErrors_spec fuse_spec filter_at_rest) = P filter_at_rest
   \<and> time_last_vel_fuse (fuseVelPosHeight fixCovarianceErrors_spec fuse_spec filter_at_rest) = 3
   \<and> time_last_pos_fuse (fuseVelPosHeight fixCovarianceErrors_spec fuse_spec filter_at_rest) = 3
   \<and> time_last_delpos_fuse (fuseVelPosHeight fixCovarianceErrors_spec fuse_spec filter_at_rest)
       = 3
   \<and> time_last_hgt_fuse (fuseVelPosHeight fixCovarianceErrors_spec fuse_spec filter_at_rest) = 3"
proof -
  have f: "\<not> fuse_hor_vel filter_at_rest" "\<not> fuse_hor_vel_aux filter_at_rest"
    "\<not> fuse_vert_vel filter_at_rest" "\<not> fuse_pos filter_at_rest"
    "\<not> fuse_height filter_at_rest"
    by (simp_all add: filter_at_rest_def)
  have t: "time_last_vel_fuse filter_at_rest = 3" "time_last_pos_fuse filter_at_rest = 3"
    "time_last_delpos_fuse filter_at_rest = 3" "time_last_hgt_fuse filter_at_rest = 3"
    by (simp_all add: filter_at_rest_def)
  show ?thesis
    using no_request_no_change [OF f, of fixCovarianceErrors_spec fuse_spec] f t by simp
qed

section \<open>The one-shot request flags\<close>

text \<open>Claim C6. For every input, and whatever the two collaborators compute, all five
  request flags are false when the routine returns.\<close>

theorem request_flags_cleared:
  "\<not> fuse_hor_vel (fuseVelPosHeight fc fu s) \<and> \<not> fuse_hor_vel_aux (fuseVelPosHeight fc fu s)
   \<and> \<not> fuse_vert_vel (fuseVelPosHeight fc fu s) \<and> \<not> fuse_pos (fuseVelPosHeight fc fu s)
   \<and> \<not> fuse_height (fuseVelPosHeight fc fu s)"
proof -
  have "updater_frame (ledger s) (fuseVelPosHeight fc fu s)"
    unfolding fuseVelPosHeight_def by (rule updater_loop_frame)
  from updater_frameD(1-5) [OF this] show ?thesis by (simp add: ledger_flags)
qed

theorem request_flags_cleared_witness:
  "\<not> fuse_hor_vel (fuseVelPosHeight fixCovarianceErrors_spec fuse_spec full_tick)
   \<and> \<not> fuse_hor_vel_aux (fuseVelPosHeight fixCovarianceErrors_spec fuse_spec full_tick)
   \<and> \<not> fuse_vert_vel (fuseVelPosHeight fixCovarianceErrors_spec fuse_spec full_tick)
   \<and> \<not> fuse_pos (fuseVelPosHeight fixCovarianceErrors_spec fuse_spec full_tick)
   \<and> \<not> fuse_height (fuseVelPosHeight fixCovarianceErrors_spec fuse_spec full_tick)
   \<and> fuse_hor_vel full_tick \<and> fuse_hor_vel_aux full_tick \<and> fuse_vert_vel full_tick
   \<and> fuse_pos full_tick \<and> fuse_height full_tick"
  using request_flags_cleared [of fixCovarianceErrors_spec fuse_spec full_tick]
  by (simp add: full_tick_def)

section \<open>The ground-effect deadzone\<close>

text \<open>Claim C7. For a deadzone width \<open>d \<ge> 0\<close> the compensated baro innovation is the raw one
  from 0 upwards, zero on \<open>[-d, 0)\<close> and the raw one plus \<open>d\<close> below \<open>-d\<close>; the map is
  continuous; without the ground-effect flag it is the identity. Under a height request the
  baro branch applies it to its raw innovation, and the GPS, range finder and vision
  branches use their raw innovations whatever the flag.\<close>

theorem ground_effect_deadzone_shape:
  assumes "0 \<le> d"
  shows "(0 \<le> x \<longrightarrow> gnd_effect_compensate True d x = x)
    \<and> (- d \<le> x \<and> x < 0 \<longrightarrow> gnd_effect_compensate True d x = 0)
    \<and> (x < - d \<longrightarrow> gnd_effect_compensate True d x = x + d)
    \<and> continuous_on UNIV (gnd_effect_compensate True d)
    \<and> gnd_effect_compensate False d x = x
    \<and> (fuse_height s \<and> baro_hgt (control_status s)
       \<longrightarrow> innovation (checked_obs s) 5 =
             gnd_effect_compensate (gnd_effect (control_status s))
               (gnd_effect_deadzone (params s))
               (state s 9 + baro_sample_hgt (sample s) - baro_hgt_offset s
                - hgt_sensor_offset s))
    \<and> (fuse_height s \<and> \<not> baro_hgt (control_status s) \<and> gps_hgt (control_status s)
       \<longrightarrow> innovation (checked_obs s) 5 =
             state s 9 + gps_sample_hgt (sample s) - gps_alt_ref s - hgt_sensor_offset s)
    \<and> (fuse_height s \<and> \<not> baro_hgt (control_status s) \<and> \<not> gps_hgt (control_status s)
        \<and> rng_hgt (control_status s)
        \<and> range_cos_max_tilt (params s) < R_rng_to_earth_2_2 s
       \<longrightarrow> innovation (checked_obs s) 5 =
             state s 9
             - (- max (range_sample_rng (sample s) * R_rng_to_earth_2_2 s)
                    (rng_gnd_clearance (params s)))
             - hgt_sensor_offset s)
    \<and> (fuse_height s \<and> \<not> baro_hgt (control_status s) \<and> \<not> gps_hgt (control_status s)
        \<and> \<not> (rng_hgt (control_status s)
              \<and> range_cos_max_tilt (params s) < R_rng_to_earth_2_2 s)
        \<and> ev_hgt (control_status s)
       \<longrightarrow> innovation (checked_obs s) 5 = state s 9 - ev_sample_posNED2 (sample s))"
proof -
  have shape: "(0 \<le> x \<longrightarrow> gnd_effect_compensate True d x = x)
    \<and> (- d \<le> x \<and> x < 0 \<longrightarrow> gnd_effect_compensate True d x = 0)
    \<and> (x < - d \<longrightarrow> gnd_effect_compensate True d x = x + d)
    \<and> gnd_effect_compensate False d x = x"
    using assms by (auto simp: gnd_effect_compensate_def Let_def)
  have baro: "innovation (checked_obs s) 5 =
      gnd_effect_compensate (gnd_effect (control_status s)) (gnd_effect_deadzone (params s))
        (state s 9 + baro_sample_hgt (sample s) - baro_hgt_offset s - hgt_sensor_offset s)"
    if "fuse_height s" "baro_hgt (control_status s)"
    using that by (simp add: innovation_checked assemble_5_baro)
  have gps: "innovation (checked_obs s) 5 =
      state s 9 + gps_sample_hgt (sample s) - gps_alt_ref s - hgt_sensor_offset s"
    if "fuse_height s" "\<not> baro_hgt (control_status s)" "gps_hgt (control_status s)"
    using that by (simp add: innovation_checked assemble_5_gps)
  have rng: "innovation (checked_obs s) 5 =
      state s 9
      - (- max (range_sample_rng (sample s) * R_rng_to_earth_2_2 s)
             (rng_gnd_clearance (params s)))
      - hgt_sensor_offset s"
    if "fuse_height s" "\<not> baro_hgt (control_status s)" "\<not> gps_hgt (control_status s)"
      "rng_hgt (control_status s)" "range_cos_max_tilt (params s) < R_rng_to_earth_2_2 s"
    using that by (simp add: innovation_checked assemble_5_rng)
  have ev: "innovation (checked_obs s) 5 = state s 9 - ev_sample_posNED2 (sample s)"
    if "fuse_height s" "\<not> baro_hgt (control_status s)" "\<not> gps_hgt (control_status s)"
      "\<not> (rng_hgt (control_status s) \<and> range_cos_max_tilt (params s) < R_rng_to_earth_2_2 s)"
      "ev_hgt (control_status s)"
    using that(1-3,5) assemble_5_ev [OF that] by (simp add: innovation_checked)
  show ?thesis
    using shape gnd_effect_compensate_continuous [OF assms] baro gps rng ev by blast
qed

theorem ground_effect_deadzone_shape_witness:
  "(0::real) \<le> 1 / 2
   \<and> gnd_effect_compensate True (1 / 2) (- (3 / 10)) = 0
   \<and> continuous_on UNIV (gnd_effect_compensate True (1 / 2))
   \<and> gnd_effect_compensate False (1 / 2) (- (3 / 10)) = - (3 / 10)
   \<and> fuse_height ground_effect_tick \<and> baro_hgt (control_status ground_effect_tick)
   \<and> gnd_effect (control_status ground_effect_tick)
   \<and> innovation (checked_obs ground_effect_tick) 5 = 0
   \<and> fuse_height gps_range_vision_tick \<and> gps_hgt (control_status gps_range_vision_tick)
   \<and> gnd_effect (control_status gps_range_vision_tick)
   \<and> innovation (checked_obs gps_range_vision_tick) 5 = - (3 / 10)"
proof -
  have d: "(0::real) \<le> 1 / 2" by simp
  have f: "fuse_height ground_effect_tick" "baro_hgt (control_status ground_effect_tick)"
    "gnd_effect (control_status ground_effect_tick)"
    "gnd_effect_deadzone (params ground_effect_tick) = 1 / 2"
    "state ground_effect_tick 9 + baro_sample_hgt (sample ground_effect_tick)
       - baro_hgt_offset ground_effect_tick - hgt_sensor_offset ground_effect_tick
     = - (3 / 10)"
    by (simp_all add: ground_effect_tick_def filter_at_rest_def)
  have g: "fuse_height gps_range_vision_tick"
    "\<not> baro_hgt (control_status gps_range_vision_tick)"
    "gps_hgt (control_status gps_range_vision_tick)"
    "gnd_effect (control_status gps_range_vision_tick)"
    "state gps_range_vision_tick 9 + gps_sample_hgt (sample gps_range_vision_tick)
       - gps_alt_ref gps_range_vision_tick - hgt_sensor_offset gps_range_vision_tick
     = - (3 / 10)"
    by (simp_all add: gps_range_vision_tick_def filter_at_rest_def)
  show ?thesis
    using ground_effect_deadzone_shape [OF d, of "- (3 / 10)" ground_effect_tick]
      ground_effect_deadzone_shape [OF d, of "- (3 / 10)" gps_range_vision_tick] f g
    by simp
qed

section \<open>The choice of the height source\<close>

text \<open>Claim C8. Under a height request the chain of branches acts as the spec's rule: the
  locals are those of the branch of the first selected source in the order baro, GPS,
  range finder (only within the tilt limit), vision, and are untouched if there is none;
  slot 5 is active exactly if there is one. The GPS branch takes its gate from
  \<open>baro_innov_gate\<close>, floored at 1.\<close>

theorem height_source_priority:
  assumes "fuse_height s"
  shows "fst (hgt_obs s l) =
           (case first_selected_source s of None \<Rightarrow> l | Some src \<Rightarrow> source_obs src s l)
    \<and> fuse_map (checked_obs s) 5 = (first_selected_source s \<noteq> None)
    \<and> (baro_hgt (control_status s) \<longrightarrow> first_selected_source s = Some BARO)
    \<and> (\<not> baro_hgt (control_status s) \<and> gps_hgt (control_status s)
       \<longrightarrow> first_selected_source s = Some GPS)
    \<and> (\<not> baro_hgt (control_status s) \<and> \<not> gps_hgt (control_status s)
        \<and> rng_hgt (control_status s) \<and> range_cos_max_tilt (params s) < R_rng_to_earth_2_2 s
       \<longrightarrow> first_selected_source s = Some RNG)
    \<and> (\<not> baro_hgt (control_status s) \<and> \<not> gps_hgt (control_status s)
        \<and> \<not> (rng_hgt (control_status s)
              \<and> range_cos_max_tilt (params s) < R_rng_to_earth_2_2 s)
        \<and> ev_hgt (control_status s)
       \<longrightarrow> first_selected_source s = Some EV)
    \<and> gate_size (source_obs GPS s l) 5 = max (baro_innov_gate (params s)) 1
    \<and> (first_selected_source s = Some GPS
       \<longrightarrow> gate_size (checked_obs s) 5 = max (baro_innov_gate (params s)) 1)"
proof -
  have chain: "fst (hgt_obs s l) =
      (case first_selected_source s of None \<Rightarrow> l | Some src \<Rightarrow> source_obs src s l)"
    using assms
    by (simp add: hgt_obs_def Let_def first_selected_source_cases source_obs_def)
  have active: "fuse_map (checked_obs s) 5 = (first_selected_source s \<noteq> None)"
    using assms
    by (simp add: fuse_map_checked fuse_map_assemble hgt_source_ready_def
        first_selected_source_cases)
  have gate_gps: "gate_size (source_obs GPS s l) 5 = max (baro_innov_gate (params s)) 1"
    by (simp add: source_obs_def gps_hgt_obs_def Let_def)
  have routine: "gate_size (checked_obs s) 5 = max (baro_innov_gate (params s)) 1"
    if "first_selected_source s = Some GPS"
  proof -
    have "\<not> baro_hgt (control_status s)" "gps_hgt (control_status s)"
      using that by (simp_all add: first_selected_source_cases split: if_splits)
    then show ?thesis using assms by (simp add: gate_size_checked assemble_5_gps)
  qed
  show ?thesis
    using chain active gate_gps routine by (simp add: first_selected_source_cases)
qed

theorem height_source_priority_witness:
  "fuse_height gps_range_vision_tick
   \<and> gps_hgt (control_status gps_range_vision_tick)
   \<and> rng_hgt (control_status gps_range_vision_tick)
   \<and> range_cos_max_tilt (params gps_range_vision_tick) < R_rng_to_earth_2_2 gps_range_vision_tick
   \<and> ev_hgt (control_status gps_range_vision_tick)
   \<and> first_selected_source gps_range_vision_tick = Some GPS
   \<and> fuse_map (checked_obs gps_range_vision_tick) 5
   \<and> baro_innov_gate (params gps_range_vision_tick) = 3
   \<and> range_innov_gate (params gps_range_vision_tick) = 5
   \<and> ev_innov_gate (params gps_range_vision_tick) = 5
   \<and> gate_size (checked_obs gps_range_vision_tick) 5 = 3"
proof -
  have f: "fuse_height gps_range_vision_tick"
    "\<not> baro_hgt (control_status gps_range_vision_tick)"
    "gps_hgt (control_status gps_range_vision_tick)"
    "rng_hgt (control_status gps_range_vision_tick)"
    "range_cos_max_tilt (params gps_range_vision_tick)
       < R_rng_to_earth_2_2 gps_range_vision_tick"
    "ev_hgt (control_status gps_range_vision_tick)"
    "baro_innov_gate (params gps_range_vision_tick) = 3"
    "range_innov_gate (params gps_range_vision_tick) = 5"
    "ev_innov_gate (params gps_range_vision_tick) = 5"
    by (simp_all add: gps_range_vision_tick_def filter_at_rest_def)
  show ?thesis
    using height_source_priority [OF f(1), of "init_obs gps_range_vision_tick"] f
    by simp
qed

section \<open>The innovation variance is fixed before the update loop\<close>

text \<open>Claim C9, as amended. For every slot \<open>k\<close> that is active this tick, the innovation
  variance is computed by the test-ratio loop from the covariance on entry,
  \<open>P[k+4][k+4] + R[k]\<close>; the update loop never writes the variances, so the filter \<open>t\<close>
  that reaches slot \<open>k\<close> and the filter returned still hold that value; and the gain of
  slot \<open>k\<close> divides the current covariance column of \<open>t\<close>, as earlier slots left it, by this
  value. The variance of a slot that is not active keeps its stored value.\<close>

theorem innovation_variance_frozen:
  assumes "k < 6" and "fuse_map (checked_obs s) k"
    and "t = for_loop 0 k (fuse_obs fc fu (checked_obs s)) (ledger s)"
  shows "vel_pos_innov_var (gate s) k = P s (k + 4) (k + 4) + R (checked_obs s) k
    \<and> vel_pos_innov_var t = vel_pos_innov_var (gate s)
    \<and> vel_pos_innov_var (fuseVelPosHeight fc fu s) = vel_pos_innov_var (gate s)
    \<and> (\<forall>row<24. calc_Kfusion t k (k + 4) row =
          P t row (k + 4) / (P s (k + 4) (k + 4) + R (checked_obs s) k))
    \<and> (\<forall>i. \<not> fuse_map (checked_obs s) i
          \<longrightarrow> vel_pos_innov_var (fuseVelPosHeight fc fu s) i = vel_pos_innov_var s i)"
proof -
  have a: "vel_pos_innov_var (gate s) k = P s (k + 4) (k + 4) + R (checked_obs s) k"
    using assms(1,2) by (simp add: gate_innov_var fuse_map_checked R_checked)
  have b: "vel_pos_innov_var t = vel_pos_innov_var (gate s)"
    unfolding assms(3) using updater_frameD(11) [OF updater_prefix_frame]
    by (simp add: ledger_keeps)
  have c: "calc_Kfusion t k (k + 4) row =
      P t row (k + 4) / (P s (k + 4) (k + 4) + R (checked_obs s) k)" if "row < 24" for row
    using that by (simp add: calc_Kfusion_eq a b)
  have d: "vel_pos_innov_var (fuseVelPosHeight fc fu s) i = vel_pos_innov_var s i"
    if "\<not> fuse_map (checked_obs s) i" for i
    using that by (simp add: routine_keeps gate_innov_var fuse_map_checked)
  show ?thesis using a b c d by (simp add: routine_keeps)
qed

theorem innovation_variance_frozen_witness:
  "fuse_map (checked_obs correlated_vel_tick) 1
   \<and> P correlated_vel_tick 5 5 = 1 \<and> R (checked_obs correlated_vel_tick) 1 = 1
   \<and> P (fuse_obs fixCovarianceErrors_spec fuse_spec (checked_obs correlated_vel_tick) 0
          (ledger correlated_vel_tick)) 5 5 = 7 / 8
   \<and> vel_pos_innov_var
        (fuseVelPosHeight fixCovarianceErrors_spec fuse_spec correlated_vel_tick) 1 = 2
   \<and> calc_Kfusion
        (fuse_obs fixCovarianceErrors_spec fuse_spec (checked_obs correlated_vel_tick) 0
          (ledger correlated_vel_tick)) 1 (1 + 4) 5 = 7 / 16"
proof -
  let ?l = "checked_obs correlated_vel_tick"
  let ?t = "ledger correlated_vel_tick"
  let ?body = "fuse_obs fixCovarianceErrors_spec fuse_spec ?l"
  have act1: "fuse_map ?l 1" by (simp add: correlated_vel_tick_gate)
  have act0: "fuse_map ?l 0" "innov_check_pass_map ?l 0"
    by (simp_all add: correlated_vel_tick_gate)
  have tdef: "?body 0 ?t = for_loop 0 1 ?body ?t"
    using for_loop_last [of 0 0 ?body ?t] by (simp add: for_loop_done)
  have healthy0: "\<forall>i<24. \<not> guard_fails (P ?t) (KHP_of ?t 0) i"
    unfolding guard_fails_def KHP_of_eq correlated_vel_tick_gate(4,5)
    by (auto simp: correlated_vel_tick_fields)
  have p55: "P (?body 0 ?t) 5 5 = 7 / 8"
    unfolding fuse_obs_healthy [OF act0 healthy0]
    by (simp add: Let_def fixCovarianceErrors_spec_def apply_cov_correction_eq KHP_of_eq
        correlated_vel_tick_gate)
      (simp add: correlated_vel_tick_fields)
  have p: "P correlated_vel_tick 5 5 = 1" by (simp add: correlated_vel_tick_fields)
  have r: "R ?l 1 = 1" by (rule correlated_vel_tick_gate(3))
  note main = innovation_variance_frozen [OF _ act1 tdef]
  have v: "vel_pos_innov_var
      (fuseVelPosHeight fixCovarianceErrors_spec fuse_spec correlated_vel_tick) 1 = 2"
    using main p r by simp
  from main have gain: "\<forall>row<24. calc_Kfusion (?body 0 ?t) 1 (1 + 4) row =
      P (?body 0 ?t) row (1 + 4) / (P correlated_vel_tick (1 + 4) (1 + 4) + R ?l 1)"
    by simp
  have k: "calc_Kfusion (?body 0 ?t) 1 (1 + 4) 5 = 7 / 16"
    using gain [rule_format, of 5] p r p55 by simp
  show ?thesis using act1 p r p55 v k by simp
qed

text \<open>Claim C9 as stated fails for a slot that is not active: the guard of line 187 skips it.
  On a tick without a request the stored variance 5 of slot 0 is returned, not
  \<open>P[4][4] + R[0] = 1\<close>.\<close>

theorem all_six_variances_counterexample:
  "\<not> fuse_map (checked_obs stale_var_tick) 0
   \<and> P stale_var_tick 4 4 + R (checked_obs stale_var_tick) 0 = 1
   \<and> vel_pos_innov_var (fuseVelPosHeight fixCovarianceErrors_spec fuse_spec stale_var_tick) 0
       = 5"
proof -
  have f: "\<not> fuse_hor_vel stale_var_tick" "\<not> fuse_hor_vel_aux stale_var_tick"
    "P stale_var_tick 4 4 = 1" "vel_pos_innov_var stale_var_tick 0 = 5"
    by (simp_all add: stale_var_tick_def filter_at_rest_def)
  show ?thesis
    using f
    by (simp add: fuse_map_checked fuse_map_assemble R_checked assemble_below_5 R_vel_pos_obs
        routine_keeps gate_innov_var)
qed

section \<open>Reject flags on ticks without a request\<close>

text \<open>Claim C10. Each reject flag is set whenever its check fails on the stored test ratios,
  whatever the request flags: the first three conjuncts state this for the ratios as the
  gate leaves them, the last three for a tick without the corresponding request, where
  the ratios tested are the ones stored on entry, left by an earlier tick.\<close>

theorem reject_without_request:
  "(\<not> vel_check_pass (gate s)
      \<longrightarrow> reject_vel_NED (innov_check_fail_status (fuseVelPosHeight fc fu s)))
   \<and> (\<not> pos_check_pass (gate s)
      \<longrightarrow> reject_pos_NE (innov_check_fail_status (fuseVelPosHeight fc fu s)))
   \<and> (\<not> hgt_check_pass (gate s)
      \<longrightarrow> reject_pos_D (innov_check_fail_status (fuseVelPosHeight fc fu s)))
   \<and> (\<not> fuse_hor_vel s \<and> \<not> fuse_hor_vel_aux s \<and> \<not> fuse_vert_vel s \<and> \<not> vel_check_pass s
      \<longrightarrow> reject_vel_NED (innov_check_fail_status (fuseVelPosHeight fc fu s)))
   \<and> (\<not> fuse_pos s \<and> \<not> pos_check_pass s
      \<longrightarrow> reject_pos_NE (innov_check_fail_status (fuseVelPosHeight fc fu s)))
   \<and> (\<not> fuse_height s \<and> \<not> hgt_check_pass s
      \<longrightarrow> reject_pos_D (innov_check_fail_status (fuseVelPosHeight fc fu s)))"
proof -
  have v: "vel_check_pass (gate s) = vel_check_pass s"
    if "\<not> fuse_hor_vel s" "\<not> fuse_hor_vel_aux s" "\<not> fuse_vert_vel s"
    using that by (simp add: vel_check_pass_def gate_test_ratio fuse_map_assemble)
  have p: "pos_check_pass (gate s) = pos_check_pass s" if "\<not> fuse_pos s"
    using that by (simp add: pos_check_pass_def gate_test_ratio fuse_map_assemble gate_control)
  have h: "hgt_check_pass (gate s) = hgt_check_pass s" if "\<not> fuse_height s"
    using that by (simp add: hgt_check_pass_def gate_test_ratio fuse_map_assemble gate_control)
  show ?thesis
    using v p h
    by (auto simp: routine_keeps ledger_reject_vel ledger_reject_pos ledger_reject_hgt)
qed

theorem reject_without_request_witness:
  "\<not> fuse_hor_vel stale_tick \<and> \<not> fuse_hor_vel_aux stale_tick \<and> \<not> fuse_vert_vel stale_tick
   \<and> \<not> fuse_pos stale_tick \<and> \<not> fuse_height stale_tick
   \<and> \<not> vel_check_pass stale_tick \<and> \<not> pos_check_pass stale_tick \<and> \<not> hgt_check_pass stale_tick
   \<and> \<not> reject_vel_NED (innov_check_fail_status stale_tick)
   \<and> \<not> reject_pos_NE (innov_check_fail_status stale_tick)
   \<and> \<not> reject_pos_D (innov_check_fail_status stale_tick)
   \<and> reject_vel_NED (innov_check_fail_status
        (fuseVelPosHeight fixCovarianceErrors_spec fuse_spec stale_tick))
   \<and> reject_pos_NE (innov_check_fail_status
        (fuseVelPosHeight fixCovarianceErrors_spec fuse_spec stale_tick))
   \<and> reject_pos_D (innov_check_fail_status
        (fuseVelPosHeight fixCovarianceErrors_spec fuse_spec stale_tick))"
proof -
  have f: "\<not> fuse_hor_vel stale_tick" "\<not> fuse_hor_vel_aux stale_tick"
    "\<not> fuse_vert_vel stale_tick" "\<not> fuse_pos stale_tick" "\<not> fuse_height stale_tick"
    by (simp_all add: stale_tick_def filter_at_rest_def)
  have c: "\<not> vel_check_pass stale_tick" "\<not> pos_check_pass stale_tick"
    "\<not> hgt_check_pass stale_tick"
    by (simp_all add: vel_check_pass_def pos_check_pass_def hgt_check_pass_def stale_tick_def
        filter_at_rest_def)
  have r: "\<not> reject_vel_NED (innov_check_fail_status stale_tick)"
    "\<not> reject_pos_NE (innov_check_fail_status stale_tick)"
    "\<not> reject_pos_D (innov_check_fail_status stale_tick)"
    by (simp_all add: stale_tick_def filter_at_rest_def)
  show ?thesis
    using reject_without_request [of stale_tick fixCovarianceErrors_spec fuse_spec] f c r
    by simp
qed

end
